theory Spec2Isabelle
  imports Main "HOL-Library.Sublist" "HOL-Library.AList"
begin

section \<open>Data model\<close>

text \<open>
  The two pydantic models of the clients and the configuration object. Python strings are
  modelled as \<^typ>\<open>string\<close>, read as the UTF-8 bytes of the text: the marker, the
  character class of the key and the separators are all ASCII, and an ASCII byte never
  occurs inside the encoding of another code point, so prefix tests, substring tests and
  the character class agree with Python's on code points.
\<close>

record SonarIssue =
  key :: string
  type :: string
  severity :: string
  status :: string
  message :: string
  component :: string
  project :: string
  tags :: "string list"

record GitHubIssue =
  number :: int
  title :: string
  body :: string
  state :: string
  labels :: "string list"
  state_reason :: "string option"

record Config =
  sonar_token :: string
  github_token :: string
  sonar_project_key :: string
  github_repo :: string
  issue_types :: "string list"

text \<open>The property \<open>SonarIssue.url\<close>.\<close>

definition url :: "SonarIssue \<Rightarrow> string" where
  "url si = ''https://sonarcloud.io/project/issues?id='' @ project si
            @ ''&issues='' @ key si @ ''&open='' @ key si"

section \<open>Python builtins used by the engine\<close>

definition nl :: string where
  "nl = [CHR 0x0A]"

text \<open>\<open>sep.join(parts)\<close>.\<close>

fun join :: "string \<Rightarrow> string list \<Rightarrow> string" where
  "join sep [] = []"
| "join sep [x] = x"
| "join sep (x # y # ys) = x @ sep @ join sep (y # ys)"

text \<open>
  \<open>parts.insert(i, x)\<close>: a negative index counts from the end, and an index outside the
  list is clamped to its ends.
\<close>

definition list_insert :: "'a list \<Rightarrow> int \<Rightarrow> 'a \<Rightarrow> 'a list" where
  "list_insert xs i x =
     (let n = int (length xs);
          j = (if i < 0 then max 0 (n + i) else min i n)
      in take (nat j) xs @ [x] @ drop (nat j) xs)"

text \<open>\<open>needle in haystack\<close> on strings is the contiguous-substring test \<^const>\<open>sublist\<close>.\<close>

section \<open>The body protocol (sync.py)\<close>

text \<open>\<open>SyncEngine._create_github_issue_body\<close>.\<close>

definition create_github_issue_body :: "SonarIssue \<Rightarrow> string" where
  "create_github_issue_body sonar_issue =
     (let body_parts =
            [''**SonarCloud Issue:** '' @ key sonar_issue,
             ''**Type:** '' @ type sonar_issue,
             ''**Severity:** '' @ severity sonar_issue,
             ''**Component:** '' @ component sonar_issue,
             '''',
             ''**Description:**'',
             message sonar_issue,
             '''',
             ''**SonarCloud Link:** '' @ url sonar_issue,
             '''',
             ''---'',
             ''*This issue was automatically created from SonarCloud*''];
          body_parts =
            (if tags sonar_issue \<noteq> []
             then list_insert
                    (list_insert body_parts (- 3)
                       (''**Tags:** '' @ join '', '' (tags sonar_issue)))
                    (- 3) ''''
             else body_parts)
      in join nl body_parts)"

text \<open>
  \<open>SyncEngine._extract_sonar_issue_key\<close>: \<open>re.search\<close> of
  \<^verbatim>\<open>\*\*SonarCloud Issue:\*\* ([A-Za-z0-9_:-]+)\<close>. The search tries each start position from
  the left; at a position the literal must be a prefix of the rest, and the greedy group
  takes the longest run of class characters after it, which must not be empty. Nothing
  follows the group in the pattern, so the longest run is the match.
\<close>

definition key_char :: "char \<Rightarrow> bool" where
  "key_char c =
     (let n = (of_char c :: nat)
      in (65 \<le> n \<and> n \<le> 90) \<or> (97 \<le> n \<and> n \<le> 122) \<or> (48 \<le> n \<and> n \<le> 57)
         \<or> c = CHR ''_'' \<or> c = CHR '':'' \<or> c = CHR ''-'')"

definition marker :: string where
  "marker = ''**SonarCloud Issue:** ''"

definition match_at :: "string \<Rightarrow> string option" where
  "match_at s =
     (if prefix marker s
      then (let run = takeWhile key_char (drop (length marker) s)
            in if run = [] then None else Some run)
      else None)"

fun re_search :: "string \<Rightarrow> string option" where
  "re_search [] = match_at []"
| "re_search (c # cs) =
     (case match_at (c # cs) of Some k \<Rightarrow> Some k | None \<Rightarrow> re_search cs)"

definition extract_sonar_issue_key :: "string \<Rightarrow> string option" where
  "extract_sonar_issue_key github_body = re_search github_body"

section \<open>The collaborators and the calls made on them\<close>

text \<open>
  Both services are outside the program. Their behaviour is a parameter: a record of
  operations on an arbitrary world \<^typ>\<open>'w\<close>, one per client method the engine calls, each
  returning its result (or the exception it raises) and the next world. The one client
  method the engine's decisions and requests depend on beyond its result,
  \<open>GitHubClient.close_issue\<close>, is modelled from its source on top of the PATCH request
  it sends; \<open>GitHubClient.issue_exists_with_sonar_link\<close> is modelled from its source on
  top of \<open>get_issues_with_label\<close>. Logging has no effect on results and is left out.
\<close>

datatype exn = Exception string

datatype call =
    SonarTestConnection
  | SonarGetIssues string "string list"
  | SonarResolveWontFix string
  | GitHubTestConnection string
  | GitHubGetIssuesWithLabel string string
  | GitHubCreateIssue string string string "string list"
  | GitHubPatch string "(string \<times> string) list"

record 'w collaborators =
  sonar_test_connection :: "'w \<Rightarrow> (exn + bool) \<times> 'w"
  sonar_get_issues :: "string \<Rightarrow> string list \<Rightarrow> 'w \<Rightarrow> (exn + SonarIssue list) \<times> 'w"
  sonar_resolve_issue_as_wont_fix :: "string \<Rightarrow> 'w \<Rightarrow> (exn + bool) \<times> 'w"
  github_test_connection :: "string \<Rightarrow> 'w \<Rightarrow> (exn + bool) \<times> 'w"
  github_get_issues_with_label ::
    "string \<Rightarrow> string \<Rightarrow> 'w \<Rightarrow> (exn + GitHubIssue list) \<times> 'w"
  github_create_issue ::
    "string \<Rightarrow> string \<Rightarrow> string \<Rightarrow> string list \<Rightarrow> 'w \<Rightarrow> (exn + GitHubIssue) \<times> 'w"
  github_session_patch ::
    "string \<Rightarrow> (string \<times> string) list \<Rightarrow> 'w \<Rightarrow> (string + unit) \<times> 'w"

text \<open>The state of a run: the world of the collaborators and the calls issued so far.\<close>

record 'w run =
  world :: 'w
  calls :: "call list"

definition invoke :: "call \<Rightarrow> ('w \<Rightarrow> 'r \<times> 'w) \<Rightarrow> 'w run \<Rightarrow> 'r \<times> 'w run" where
  "invoke c f s =
     (case f (world s) of (r, w') \<Rightarrow> (r, \<lparr>world = w', calls = calls s @ [c]\<rparr>))"

definition sonar_client_test_connection ::
  "'w collaborators \<Rightarrow> 'w run \<Rightarrow> (exn + bool) \<times> 'w run" where
  "sonar_client_test_connection sv = invoke SonarTestConnection (sonar_test_connection sv)"

definition github_client_test_connection ::
  "'w collaborators \<Rightarrow> string \<Rightarrow> 'w run \<Rightarrow> (exn + bool) \<times> 'w run" where
  "github_client_test_connection sv repo =
     invoke (GitHubTestConnection repo) (github_test_connection sv repo)"

definition get_issues ::
  "'w collaborators \<Rightarrow> string \<Rightarrow> string list \<Rightarrow> 'w run \<Rightarrow> (exn + SonarIssue list) \<times> 'w run" where
  "get_issues sv project_key types =
     invoke (SonarGetIssues project_key types) (sonar_get_issues sv project_key types)"

definition resolve_issue_as_wont_fix ::
  "'w collaborators \<Rightarrow> string \<Rightarrow> 'w run \<Rightarrow> (exn + bool) \<times> 'w run" where
  "resolve_issue_as_wont_fix sv issue_key =
     invoke (SonarResolveWontFix issue_key) (sonar_resolve_issue_as_wont_fix sv issue_key)"

definition get_issues_with_label ::
  "'w collaborators \<Rightarrow> string \<Rightarrow> string \<Rightarrow> 'w run \<Rightarrow> (exn + GitHubIssue list) \<times> 'w run" where
  "get_issues_with_label sv repo label =
     invoke (GitHubGetIssuesWithLabel repo label) (github_get_issues_with_label sv repo label)"

definition create_issue ::
  "'w collaborators \<Rightarrow> string \<Rightarrow> string \<Rightarrow> string \<Rightarrow> string list \<Rightarrow> 'w run
   \<Rightarrow> (exn + GitHubIssue) \<times> 'w run" where
  "create_issue sv repo ttl bdy lbls =
     invoke (GitHubCreateIssue repo ttl bdy lbls) (github_create_issue sv repo ttl bdy lbls)"

definition session_patch ::
  "'w collaborators \<Rightarrow> string \<Rightarrow> (string \<times> string) list \<Rightarrow> 'w run
   \<Rightarrow> (string + unit) \<times> 'w run" where
  "session_patch sv u data = invoke (GitHubPatch u data) (github_session_patch sv u data)"

subsection \<open>github_client.py\<close>

text \<open>The decimal rendering of an integer inside an f-string.\<close>

fun str_nat :: "nat \<Rightarrow> string" where
  "str_nat n =
     (if n < 10 then [char_of (48 + n)]
      else str_nat (n div 10) @ [char_of (48 + n mod 10)])"

declare str_nat.simps [simp del]

definition str_int :: "int \<Rightarrow> string" where
  "str_int i = (if i < 0 then CHR ''-'' # str_nat (nat (- i)) else str_nat (nat i))"

definition base_url :: string where
  "base_url = ''https://api.github.com''"

definition issue_url :: "string \<Rightarrow> int \<Rightarrow> string" where
  "issue_url repo issue_number = base_url @ ''/repos/'' @ repo @ ''/issues/'' @ str_int issue_number"

text \<open>
  \<open>GitHubClient.close_issue\<close>: a PATCH of the issue with the JSON object
  \<open>{"state": "closed"}\<close>; a \<open>RequestException\<close> of the transport (with message \<open>e\<close>) is
  raised again as an \<open>Exception\<close>.
\<close>

definition close_issue ::
  "'w collaborators \<Rightarrow> string \<Rightarrow> int \<Rightarrow> 'w run \<Rightarrow> (exn + bool) \<times> 'w run" where
  "close_issue sv repo issue_number s =
     (let data = [(''state'', ''closed'')]
      in case session_patch sv (issue_url repo issue_number) data s of
           (Inr _, s1) \<Rightarrow> (Inr True, s1)
         | (Inl e, s1) \<Rightarrow>
             (Inl (Exception (''Failed to close GitHub issue #'' @ str_int issue_number
                              @ '': '' @ e)), s1))"

text \<open>\<open>GitHubClient.issue_exists_with_sonar_link\<close>: a fresh fetch, then the first hit.\<close>

definition issue_exists_with_sonar_link ::
  "'w collaborators \<Rightarrow> string \<Rightarrow> string \<Rightarrow> 'w run \<Rightarrow> (exn + GitHubIssue option) \<times> 'w run" where
  "issue_exists_with_sonar_link sv repo sonar_issue_url s =
     (case get_issues_with_label sv repo ''sonarcloud'' s of
        (Inl e, s1) \<Rightarrow> (Inl e, s1)
      | (Inr issues, s1) \<Rightarrow>
          (Inr (find (\<lambda>issue. sublist sonar_issue_url (body issue)) issues), s1))"

section \<open>The engine (sync.py)\<close>

text \<open>\<open>SyncEngine.validate_credentials\<close>.\<close>

definition validate_credentials ::
  "'w collaborators \<Rightarrow> Config \<Rightarrow> 'w run \<Rightarrow> (exn + bool) \<times> 'w run" where
  "validate_credentials sv config s =
     (case sonar_client_test_connection sv s of
        (Inl e, s1) \<Rightarrow> (Inl e, s1)
      | (Inr ok, s1) \<Rightarrow>
          if \<not> ok
          then (Inl (Exception ''Invalid SonarCloud credentials or connection failed''), s1)
          else (case github_client_test_connection sv (github_repo config) s1 of
                  (Inl e, s2) \<Rightarrow> (Inl e, s2)
                | (Inr ok', s2) \<Rightarrow>
                    if \<not> ok'
                    then (Inl (Exception
                            ''Invalid GitHub credentials or repository access failed''), s2)
                    else (Inr True, s2)))"

text \<open>
  The first loop of \<open>SyncEngine.sync_sonar_to_github\<close>, over the SonarCloud issues; the
  pair is \<open>(created_count, skipped_count)\<close>. An exception of the lookup leaves the loop;
  an exception of \<open>create_issue\<close> is caught.
\<close>

fun create_loop ::
  "'w collaborators \<Rightarrow> Config \<Rightarrow> bool \<Rightarrow> SonarIssue list \<Rightarrow> nat \<times> nat \<Rightarrow> 'w run
   \<Rightarrow> (exn + nat \<times> nat) \<times> 'w run" where
  "create_loop sv config dry_run [] (created_count, skipped_count) s =
     (Inr (created_count, skipped_count), s)"
| "create_loop sv config dry_run (sonar_issue # rest) (created_count, skipped_count) s =
     (case issue_exists_with_sonar_link sv (github_repo config) (url sonar_issue) s of
        (Inl e, s1) \<Rightarrow> (Inl e, s1)
      | (Inr (Some existing_github_issue), s1) \<Rightarrow>
          create_loop sv config dry_run rest (created_count, skipped_count + 1) s1
      | (Inr None, s1) \<Rightarrow>
          (let github_title = message sonar_issue;
               github_body = create_github_issue_body sonar_issue;
               github_labels = ''sonarcloud'' # tags sonar_issue
           in if dry_run
              then create_loop sv config dry_run rest (created_count + 1, skipped_count) s1
              else (case create_issue sv (github_repo config) github_title github_body
                           github_labels s1 of
                      (Inr github_issue, s2) \<Rightarrow>
                        create_loop sv config dry_run rest (created_count + 1, skipped_count) s2
                    | (Inl e, s2) \<Rightarrow>
                        create_loop sv config dry_run rest (created_count, skipped_count) s2)))"

text \<open>
  The second loop of \<open>SyncEngine.sync_sonar_to_github\<close>, over the labelled GitHub issues;
  the number is \<open>closed_count\<close>. Every exception of \<open>close_issue\<close> is caught.
  \<open>if sonar_issue_key:\<close> is false for \<open>None\<close> and for the empty string.
\<close>

fun close_loop ::
  "'w collaborators \<Rightarrow> Config \<Rightarrow> bool \<Rightarrow> SonarIssue list \<Rightarrow> GitHubIssue list \<Rightarrow> nat \<Rightarrow> 'w run
   \<Rightarrow> nat \<times> 'w run" where
  "close_loop sv config dry_run sonar_issues [] closed_count s = (closed_count, s)"
| "close_loop sv config dry_run sonar_issues (github_issue # rest) closed_count s =
     (if state github_issue = ''open''
      then (case extract_sonar_issue_key (body github_issue) of
              Some sonar_issue_key \<Rightarrow>
                if sonar_issue_key \<noteq> []
                then (if \<not> list_ex (\<lambda>si. key si = sonar_issue_key) sonar_issues
                      then (if dry_run
                            then close_loop sv config dry_run sonar_issues rest
                                   (closed_count + 1) s
                            else (case close_issue sv (github_repo config)
                                         (number github_issue) s of
                                    (Inr _, s1) \<Rightarrow>
                                      close_loop sv config dry_run sonar_issues rest
                                        (closed_count + 1) s1
                                  | (Inl e, s1) \<Rightarrow>
                                      close_loop sv config dry_run sonar_issues rest
                                        closed_count s1))
                      else close_loop sv config dry_run sonar_issues rest closed_count s)
                else close_loop sv config dry_run sonar_issues rest closed_count s
            | None \<Rightarrow> close_loop sv config dry_run sonar_issues rest closed_count s)
      else close_loop sv config dry_run sonar_issues rest closed_count s)"

text \<open>\<open>SyncEngine.sync_sonar_to_github\<close>; the result is the returned dict, in key order.\<close>

definition sync_sonar_to_github ::
  "'w collaborators \<Rightarrow> Config \<Rightarrow> bool \<Rightarrow> 'w run \<Rightarrow> (exn + (string \<times> nat) list) \<times> 'w run" where
  "sync_sonar_to_github sv config dry_run s =
     (case get_issues sv (sonar_project_key config) (issue_types config) s of
        (Inl e, s1) \<Rightarrow> (Inl e, s1)
      | (Inr sonar_issues, s1) \<Rightarrow>
          (case create_loop sv config dry_run sonar_issues (0, 0) s1 of
             (Inl e, s2) \<Rightarrow> (Inl e, s2)
           | (Inr (created_count, skipped_count), s2) \<Rightarrow>
               (case get_issues_with_label sv (github_repo config) ''sonarcloud'' s2 of
                  (Inl e, s3) \<Rightarrow> (Inl e, s3)
                | (Inr github_issues, s3) \<Rightarrow>
                    (case close_loop sv config dry_run sonar_issues github_issues 0 s3 of
                       (closed_count, s4) \<Rightarrow>
                         (Inr [(''created'', created_count),
                               (''skipped'', skipped_count),
                               (''closed'', closed_count)], s4)))))"

text \<open>
  The loop of \<open>SyncEngine.sync_github_to_sonar\<close>; the number is \<open>marked_wont_fix\<close>. Every
  exception of \<open>resolve_issue_as_wont_fix\<close> is caught.
\<close>

fun wont_fix_loop ::
  "'w collaborators \<Rightarrow> bool \<Rightarrow> GitHubIssue list \<Rightarrow> nat \<Rightarrow> 'w run \<Rightarrow> nat \<times> 'w run" where
  "wont_fix_loop sv dry_run [] marked_wont_fix s = (marked_wont_fix, s)"
| "wont_fix_loop sv dry_run (github_issue # rest) marked_wont_fix s =
     (if state github_issue = ''closed'' \<and> state_reason github_issue = Some ''not_planned''
      then (case extract_sonar_issue_key (body github_issue) of
              Some sonar_issue_key \<Rightarrow>
                if sonar_issue_key \<noteq> []
                then (if dry_run
                      then wont_fix_loop sv dry_run rest (marked_wont_fix + 1) s
                      else (case resolve_issue_as_wont_fix sv sonar_issue_key s of
                              (Inr success, s1) \<Rightarrow>
                                if success
                                then wont_fix_loop sv dry_run rest (marked_wont_fix + 1) s1
                                else wont_fix_loop sv dry_run rest marked_wont_fix s1
                            | (Inl e, s1) \<Rightarrow>
                                wont_fix_loop sv dry_run rest marked_wont_fix s1))
                else wont_fix_loop sv dry_run rest marked_wont_fix s
            | None \<Rightarrow> wont_fix_loop sv dry_run rest marked_wont_fix s)
      else wont_fix_loop sv dry_run rest marked_wont_fix s)"

text \<open>\<open>SyncEngine.sync_github_to_sonar\<close>.\<close>

definition sync_github_to_sonar ::
  "'w collaborators \<Rightarrow> Config \<Rightarrow> bool \<Rightarrow> 'w run \<Rightarrow> (exn + (string \<times> nat) list) \<times> 'w run" where
  "sync_github_to_sonar sv config dry_run s =
     (case get_issues_with_label sv (github_repo config) ''sonarcloud'' s of
        (Inl e, s1) \<Rightarrow> (Inl e, s1)
      | (Inr github_issues, s1) \<Rightarrow>
          (case wont_fix_loop sv dry_run github_issues 0 s1 of
             (marked_wont_fix, s2) \<Rightarrow> (Inr [(''marked_wont_fix'', marked_wont_fix)], s2)))"

text \<open>
  \<open>{**a, **b}\<close>: the entries of \<open>a\<close> in their order, a key of \<open>b\<close> overwriting in place or
  appended.
\<close>

definition dict_merge :: "(string \<times> nat) list \<Rightarrow> (string \<times> nat) list \<Rightarrow> (string \<times> nat) list" where
  "dict_merge a b = fold (\<lambda>(k, v). AList.update k v) b a"

text \<open>\<open>SyncEngine.full_sync\<close>.\<close>

definition full_sync ::
  "'w collaborators \<Rightarrow> Config \<Rightarrow> bool \<Rightarrow> 'w run \<Rightarrow> (exn + (string \<times> nat) list) \<times> 'w run" where
  "full_sync sv config dry_run s =
     (case validate_credentials sv config s of
        (Inl e, s1) \<Rightarrow> (Inl e, s1)
      | (Inr _, s1) \<Rightarrow>
          (case sync_sonar_to_github sv config dry_run s1 of
             (Inl e, s2) \<Rightarrow> (Inl e, s2)
           | (Inr sonar_to_github_results, s2) \<Rightarrow>
               (case sync_github_to_sonar sv config dry_run s2 of
                  (Inl e, s3) \<Rightarrow> (Inl e, s3)
                | (Inr github_to_sonar_results, s3) \<Rightarrow>
                    (Inr (dict_merge sonar_to_github_results github_to_sonar_results), s3))))"

section \<open>Reference definitions and example inputs\<close>

text \<open>
  The body layout as the template of the body embedding format draws it, with the tags line
  and its blank line between the message block and the link line. It is the layout the
  built body is compared with; the engine never uses it.
\<close>

definition template_body :: "SonarIssue \<Rightarrow> string" where
  "template_body si =
     join nl
       ([''**SonarCloud Issue:** '' @ key si,
         ''**Type:** '' @ type si,
         ''**Severity:** '' @ severity si,
         ''**Component:** '' @ component si,
         '''',
         ''**Description:**'',
         message si,
         '''']
        @ (if tags si \<noteq> [] then [''**Tags:** '' @ join '', '' (tags si), ''''] else [])
        @ [''**SonarCloud Link:** '' @ url si,
           '''',
           ''---'',
           ''*This issue was automatically created from SonarCloud*''])"

definition example_finding :: SonarIssue where
  "example_finding =
     \<lparr>key = ''test-key'', type = ''BUG'', severity = ''MAJOR'', status = ''OPEN'',
      message = ''Test message'', component = ''test-component'', project = ''test-project'',
      tags = [''security'', ''performance'']\<rparr>"

text \<open>
  Collaborators that answer as the mocks of the unit tests do: fixed connection results,
  fixed lists, a \<open>create_issue\<close> that succeeds or raises as told, and a PATCH and a
  won't-fix transition that always succeed. The world is trivial.
\<close>

definition mock_collaborators ::
  "bool \<Rightarrow> bool \<Rightarrow> SonarIssue list \<Rightarrow> GitHubIssue list \<Rightarrow> bool \<Rightarrow> unit collaborators" where
  "mock_collaborators sonar_ok github_ok findings items create_ok =
     \<lparr>sonar_test_connection = (\<lambda>w. (Inr sonar_ok, w)),
      sonar_get_issues = (\<lambda>project_key types w. (Inr findings, w)),
      sonar_resolve_issue_as_wont_fix = (\<lambda>issue_key w. (Inr True, w)),
      github_test_connection = (\<lambda>repo w. (Inr github_ok, w)),
      github_get_issues_with_label = (\<lambda>repo label w. (Inr items, w)),
      github_create_issue =
        (\<lambda>repo ttl bdy lbls w.
           (if create_ok
            then Inr \<lparr>number = 1, title = ttl, body = bdy, state = ''open'', labels = lbls,
                      state_reason = None\<rparr>
            else Inl (Exception ''Failed to create GitHub issue''), w)),
      github_session_patch = (\<lambda>u data w. (Inr (), w))\<rparr>"

definition example_config :: Config where
  "example_config =
     \<lparr>sonar_token = ''s'', github_token = ''g'', sonar_project_key = ''test-project'',
      github_repo = ''o/r'', issue_types = [''BUG'']\<rparr>"

definition start :: "unit run" where
  "start = \<lparr>world = (), calls = []\<rparr>"

text \<open>
  The items of the spec's scenario B: one linked to the example finding, one open and
  stale, one closed as not planned; and an open item with no marker in its body.
\<close>

definition linked_item :: GitHubIssue where
  "linked_item =
     \<lparr>number = 1, title = ''Test message'', body = create_github_issue_body example_finding,
      state = ''open'', labels = [''sonarcloud''], state_reason = None\<rparr>"

definition stale_item :: GitHubIssue where
  "stale_item =
     \<lparr>number = 2, title = ''Old'', body = ''**SonarCloud Issue:** sonar-2'',
      state = ''open'', labels = [''sonarcloud''], state_reason = None\<rparr>"

definition declined_item :: GitHubIssue where
  "declined_item =
     \<lparr>number = 3, title = ''Declined'', body = ''**SonarCloud Issue:** sonar-3'',
      state = ''closed'', labels = [''sonarcloud''], state_reason = Some ''not_planned''\<rparr>"

definition unmarked_item :: GitHubIssue where
  "unmarked_item =
     \<lparr>number = 4, title = ''Manual'', body = ''no marker here'',
      state = ''open'', labels = [''sonarcloud''], state_reason = None\<rparr>"

text \<open>
  The conditions of the closure and of the reverse sync, and the requests they call for,
  stated on their own: an item is stale for a list of open findings when it is open, its
  body yields a key, and no finding of the list has that key; an item is declined when
  it is closed with reason \<open>not_planned\<close> and its body yields a key.
\<close>

definition stale :: "SonarIssue list \<Rightarrow> GitHubIssue \<Rightarrow> bool" where
  "stale sonar_issues gi =
     (state gi = ''open''
      \<and> (case extract_sonar_issue_key (body gi) of
            None \<Rightarrow> False
          | Some k \<Rightarrow> \<not> list_ex (\<lambda>si. key si = k) sonar_issues))"

definition close_request :: "string \<Rightarrow> GitHubIssue \<Rightarrow> call" where
  "close_request repo gi = GitHubPatch (issue_url repo (number gi)) [(''state'', ''closed'')]"

definition declined :: "GitHubIssue \<Rightarrow> bool" where
  "declined gi =
     (state gi = ''closed'' \<and> state_reason gi = Some ''not_planned''
      \<and> extract_sonar_issue_key (body gi) \<noteq> None)"

definition wont_fix_request :: "GitHubIssue \<Rightarrow> call" where
  "wont_fix_request gi = SonarResolveWontFix (the (extract_sonar_issue_key (body gi)))"

text \<open>The calls that change a collaborator: create, close (the PATCH) and mark won't-fix.\<close>

fun mutating :: "call \<Rightarrow> bool" where
  "mutating (GitHubCreateIssue repo ttl bdy lbls) = True"
| "mutating (GitHubPatch u data) = True"
| "mutating (SonarResolveWontFix issue_key) = True"
| "mutating SonarTestConnection = False"
| "mutating (SonarGetIssues project_key types) = False"
| "mutating (GitHubTestConnection repo) = False"
| "mutating (GitHubGetIssuesWithLabel repo label) = False"

text \<open>
  A tracker of the kind claims about stored items suppose: its world is the list of its
  issues. It lists the issues that carry the label, stores a created issue with the body
  it was given, open and with no closure reason, and on a PATCH changes exactly the
  fields the JSON object names (\<open>state\<close>, \<open>state_reason\<close>) of the issue the URL addresses:
  a closure reason changes only when it is set explicitly. The SonarCloud side returns a
  fixed list of findings.
\<close>

definition apply_patch :: "(string \<times> string) list \<Rightarrow> GitHubIssue \<Rightarrow> GitHubIssue" where
  "apply_patch data gi =
     (let gi1 = (case map_of data ''state'' of Some v \<Rightarrow> gi\<lparr>state := v\<rparr> | None \<Rightarrow> gi)
      in case map_of data ''state_reason'' of
           Some v \<Rightarrow> gi1\<lparr>state_reason := Some v\<rparr>
         | None \<Rightarrow> gi1)"

definition store_collaborators ::
  "string \<Rightarrow> SonarIssue list \<Rightarrow> (GitHubIssue list) collaborators" where
  "store_collaborators repo findings =
     \<lparr>sonar_test_connection = (\<lambda>w. (Inr True, w)),
      sonar_get_issues = (\<lambda>project_key types w. (Inr findings, w)),
      sonar_resolve_issue_as_wont_fix = (\<lambda>issue_key w. (Inr True, w)),
      github_test_connection = (\<lambda>r w. (Inr True, w)),
      github_get_issues_with_label =
        (\<lambda>r label w. (Inr (filter (\<lambda>gi. List.member (labels gi) label) w), w)),
      github_create_issue =
        (\<lambda>r ttl bdy lbls w.
           (let gi = \<lparr>number = fold (\<lambda>x m. max (number x) m) w 0 + 1, title = ttl,
                      body = bdy, state = ''open'',
                      labels = lbls, state_reason = None\<rparr>
            in (Inr gi, w @ [gi]))),
      github_session_patch =
        (\<lambda>u data w.
           (Inr (), map (\<lambda>gi. if issue_url repo (number gi) = u then apply_patch data gi
                                else gi) w))\<rparr>"

text \<open>No issue of the list carries the closure reason \<open>not_planned\<close>.\<close>

definition no_not_planned :: "GitHubIssue list \<Rightarrow> bool" where
  "no_not_planned w = list_all (\<lambda>gi. state_reason gi \<noteq> Some ''not_planned'') w"

fun is_wont_fix :: "call \<Rightarrow> bool" where
  "is_wont_fix (SonarResolveWontFix issue_key) = True"
| "is_wont_fix (GitHubCreateIssue repo ttl bdy lbls) = False"
| "is_wont_fix (GitHubPatch u data) = False"
| "is_wont_fix SonarTestConnection = False"
| "is_wont_fix (SonarGetIssues project_key types) = False"
| "is_wont_fix (GitHubTestConnection repo) = False"
| "is_wont_fix (GitHubGetIssuesWithLabel repo label) = False"

text \<open>
  The tracker at world \<open>w\<close> lists an item whose body contains \<open>u\<close>: the fetch of the labelled
  items succeeds there and some item of its result has \<open>u\<close> as a substring of its body.
\<close>

definition lists_link :: "'w collaborators \<Rightarrow> string \<Rightarrow> string \<Rightarrow> 'w \<Rightarrow> bool" where
  "lists_link sv repo u w =
     (case fst (github_get_issues_with_label sv repo ''sonarcloud'' w) of
        Inl e \<Rightarrow> False
      | Inr items \<Rightarrow> list_ex (\<lambda>gi. sublist u (body gi)) items)"

text \<open>
  A property of the world that every operation the engine calls keeps, the PATCH for the
  object \<open>{"state": "closed"}\<close> the engine sends.
\<close>

definition kept_by :: "'w collaborators \<Rightarrow> string \<Rightarrow> ('w \<Rightarrow> bool) \<Rightarrow> bool" where
  "kept_by sv repo I =
     ((\<forall>w. I w \<longrightarrow> I (snd (sonar_test_connection sv w)))
      \<and> (\<forall>w. I w \<longrightarrow> I (snd (github_test_connection sv repo w)))
      \<and> (\<forall>pk ts w. I w \<longrightarrow> I (snd (sonar_get_issues sv pk ts w)))
      \<and> (\<forall>k w. I w \<longrightarrow> I (snd (sonar_resolve_issue_as_wont_fix sv k w)))
      \<and> (\<forall>w. I w \<longrightarrow> I (snd (github_get_issues_with_label sv repo ''sonarcloud'' w)))
      \<and> (\<forall>t b l w. I w \<longrightarrow> I (snd (github_create_issue sv repo t b l w)))
      \<and> (\<forall>u w. I w \<longrightarrow> I (snd (github_session_patch sv u [(''state'', ''closed'')] w))))"

text \<open>
  The forward sync from the state its first loop is in: the findings \<open>todo\<close> still to be
  processed with the counters \<open>acc\<close>, then the fetch of the labelled items and the
  closure loop against all the findings \<open>sonar_issues\<close>.
\<close>

definition forward_from ::
  "'w collaborators \<Rightarrow> Config \<Rightarrow> bool \<Rightarrow> SonarIssue list \<Rightarrow> SonarIssue list \<Rightarrow> nat \<times> nat
   \<Rightarrow> 'w run \<Rightarrow> (exn + (string \<times> nat) list) \<times> 'w run" where
  "forward_from sv config dry_run sonar_issues todo acc s =
     (case create_loop sv config dry_run todo acc s of
        (Inl e, s2) \<Rightarrow> (Inl e, s2)
      | (Inr (created_count, skipped_count), s2) \<Rightarrow>
          (case get_issues_with_label sv (github_repo config) ''sonarcloud'' s2 of
             (Inl e, s3) \<Rightarrow> (Inl e, s3)
           | (Inr github_issues, s3) \<Rightarrow>
               (case close_loop sv config dry_run sonar_issues github_issues 0 s3 of
                  (closed_count, s4) \<Rightarrow>
                    (Inr [(''created'', created_count),
                          (''skipped'', skipped_count),
                          (''closed'', closed_count)], s4))))"

text \<open>
  Two runs, started in the states \<open>s\<close> and \<open>t\<close> and ending with \<open>p\<close> and \<open>q\<close>, agree: they
  return the same result, leave the same world, and issue the same calls in the same
  order.
\<close>

definition agree :: "'w run \<Rightarrow> 'w run \<Rightarrow> 'a \<times> 'w run \<Rightarrow> 'a \<times> 'w run \<Rightarrow> bool" where
  "agree s t p q =
     (fst p = fst q \<and> world (snd p) = world (snd q)
      \<and> (\<exists>cs. calls (snd p) = calls s @ cs \<and> calls (snd q) = calls t @ cs))"

text \<open>
  A storing tracker whose \<open>create_issue\<close> for one title stores the issue and then raises,
  as a request does that times out after the server has served it.
\<close>

definition raising_store ::
  "string \<Rightarrow> SonarIssue list \<Rightarrow> string \<Rightarrow> (GitHubIssue list) collaborators" where
  "raising_store repo findings bad_title =
     (store_collaborators repo findings)
       \<lparr>github_create_issue :=
          (\<lambda>r ttl bdy lbls w.
             (let gi = \<lparr>number = fold (\<lambda>x m. max (number x) m) w 0 + 1, title = ttl,
                        body = bdy, state = ''open'', labels = lbls, state_reason = None\<rparr>
              in (if ttl = bad_title then Inl (Exception ''Failed to create GitHub issue'')
                  else Inr gi, w @ [gi])))\<rparr>"

text \<open>
  A second report of the example finding, with another message, and an open item that
  carries the closure reason \<open>not_planned\<close>.
\<close>

definition other_finding :: SonarIssue where
  "other_finding = example_finding\<lparr>message := ''Other message''\<rparr>"

definition reopened_item :: GitHubIssue where
  "reopened_item =
     \<lparr>number = 2, title = ''Old'', body = ''**SonarCloud Issue:** sonar-2'',
      state = ''open'', labels = [''sonarcloud''], state_reason = Some ''not_planned''\<rparr>"

section \<open>The body protocol\<close>

lemma key_char_newline: "\<not> key_char (CHR 0x0A)"
  by (simp add: key_char_def)

lemma match_at_marker:
  assumes "k \<noteq> []" and "\<forall>c\<in>set k. key_char c"
  shows "match_at (marker @ k @ nl @ rest) = Some k"
  using assms by (simp add: match_at_def nl_def key_char_newline takeWhile_tail)

lemma body_starts_with_marker:
  "\<exists>rest. create_github_issue_body si = marker @ key si @ nl @ rest"
  by (simp add: create_github_issue_body_def list_insert_def Let_def marker_def)

lemma re_search_match_at: "match_at s = Some k \<Longrightarrow> re_search s = Some k"
  by (cases s) simp_all

lemma match_at_nonempty: "match_at s = Some k \<Longrightarrow> k \<noteq> []"
  by (auto simp: match_at_def Let_def split: if_splits)

lemma re_search_nonempty: "re_search s = Some k \<Longrightarrow> k \<noteq> []"
  by (induction s) (auto simp: match_at_nonempty split: option.splits)

lemma extract_nonempty: "extract_sonar_issue_key b = Some k \<Longrightarrow> k \<noteq> []"
  by (simp add: extract_sonar_issue_key_def re_search_nonempty)

lemma url_in_built_body: "sublist (url si) (create_github_issue_body si)"
proof -
  have "\<exists>ps ss. create_github_issue_body si = ps @ url si @ ss"
  proof (cases "tags si = []")
    case True
    have "create_github_issue_body si =
            (''**SonarCloud Issue:** '' @ key si @ nl @ ''**Type:** '' @ type si @ nl
             @ ''**Severity:** '' @ severity si @ nl @ ''**Component:** '' @ component si @ nl
             @ nl @ ''**Description:**'' @ nl @ message si @ nl @ nl @ ''**SonarCloud Link:** '')
            @ url si
            @ (nl @ nl @ ''---'' @ nl @ ''*This issue was automatically created from SonarCloud*'')"
      using True by (simp add: create_github_issue_body_def)
    then show ?thesis by blast
  next
    case False
    have "create_github_issue_body si =
            (''**SonarCloud Issue:** '' @ key si @ nl @ ''**Type:** '' @ type si @ nl
             @ ''**Severity:** '' @ severity si @ nl @ ''**Component:** '' @ component si @ nl
             @ nl @ ''**Description:**'' @ nl @ message si @ nl @ nl @ ''**SonarCloud Link:** '')
            @ url si
            @ (nl @ ''**Tags:** '' @ join '', '' (tags si) @ nl @ nl @ nl @ ''---'' @ nl
               @ ''*This issue was automatically created from SonarCloud*'')"
      using False by (simp add: create_github_issue_body_def list_insert_def)
    then show ?thesis by blast
  qed
  then show ?thesis by (simp add: sublist_def)
qed

text \<open>
  C1. For a finding whose key is a non-empty string of characters of the class
  \<open>[A-Za-z0-9_:-]\<close>, extracting the key from the body built for it returns that key. The
  pattern matches at the very start of the body: the marker line is its first line.
\<close>

theorem extract_key_of_built_body:
  assumes "key si \<noteq> []" and "\<forall>c\<in>set (key si). key_char c"
  shows "extract_sonar_issue_key (create_github_issue_body si) = Some (key si)
         \<and> match_at (create_github_issue_body si) = Some (key si)
         \<and> prefix (marker @ key si @ nl) (create_github_issue_body si)"
proof -
  obtain rest where b: "create_github_issue_body si = marker @ key si @ nl @ rest"
    using body_starts_with_marker by blast
  have m: "match_at (create_github_issue_body si) = Some (key si)"
    unfolding b using assms by (rule match_at_marker)
  have p: "prefix (marker @ key si @ nl) (create_github_issue_body si)"
    unfolding b by (simp add: prefix_def)
  show ?thesis
    using m p by (simp add: extract_sonar_issue_key_def re_search_match_at)
qed

theorem extract_key_of_built_body_witness:
  "key example_finding = ''test-key''
   \<and> list_all key_char (key example_finding)
   \<and> extract_sonar_issue_key (create_github_issue_body example_finding) = Some ''test-key''"
proof -
  have k: "key example_finding \<noteq> []" by (simp add: example_finding_def)
  have c: "\<forall>c\<in>set (key example_finding). key_char c"
    by (simp add: example_finding_def key_char_def)
  from extract_key_of_built_body [OF k c] c show ?thesis
    by (simp add: example_finding_def list_all_iff)
qed

text \<open>
  C6, as the code has it. The built body is the twelve fixed lines; when the finding has
  tags, the tags line comes directly after the link line and is followed by two blank
  lines (its own and the one that followed the link line), then the separator rule and
  the attribution sentence. Without tags neither the tags line nor its blank line is there.
\<close>

theorem built_body_lines:
  "create_github_issue_body si =
     join nl
       ([''**SonarCloud Issue:** '' @ key si,
         ''**Type:** '' @ type si,
         ''**Severity:** '' @ severity si,
         ''**Component:** '' @ component si,
         '''',
         ''**Description:**'',
         message si,
         '''',
         ''**SonarCloud Link:** '' @ url si]
        @ (if tags si \<noteq> [] then [''**Tags:** '' @ join '', '' (tags si), ''''] else [])
        @ ['''',
           ''---'',
           ''*This issue was automatically created from SonarCloud*''])"
  by (simp add: create_github_issue_body_def list_insert_def Let_def)

text \<open>
  C6, as the claim states it, fails: for a finding with two tags the built body is not
  the template's layout; the tags line stands after the link line, not before it.
\<close>

theorem built_body_not_template:
  "tags example_finding \<noteq> []
   \<and> create_github_issue_body example_finding \<noteq> template_body example_finding
   \<and> create_github_issue_body example_finding =
       join nl [''**SonarCloud Issue:** test-key'', ''**Type:** BUG'', ''**Severity:** MAJOR'',
         ''**Component:** test-component'', '''', ''**Description:**'', ''Test message'', '''',
         ''**SonarCloud Link:** https://sonarcloud.io/project/issues?id=test-project&issues=test-key&open=test-key'',
         ''**Tags:** security, performance'', '''', '''', ''---'',
         ''*This issue was automatically created from SonarCloud*'']"
  by (simp add: create_github_issue_body_def template_body_def example_finding_def
        list_insert_def Let_def url_def nl_def)

section \<open>Calls on the collaborators\<close>

lemma invoke_calls: "invoke c f s = (r, s') \<Longrightarrow> calls s' = calls s @ [c]"
  by (auto simp: invoke_def split: prod.splits)

lemma invoke_fst: "fst (invoke c f s) = fst (f (world s))"
  by (simp add: invoke_def split: prod.splits)

lemma invoke_world: "world (snd (invoke c f s)) = snd (f (world s))"
  by (simp add: invoke_def split: prod.splits)

lemma invoke_mutating:
  "invoke c f s = (r, s') \<Longrightarrow> \<not> mutating c \<Longrightarrow>
   filter mutating (calls s') = filter mutating (calls s)"
  by (auto simp: invoke_def split: prod.splits)

lemma close_issue_calls:
  "close_issue sv repo n s = (r, s1) \<Longrightarrow>
   calls s1 = calls s @ [GitHubPatch (issue_url repo n) [(''state'', ''closed'')]]"
  by (auto simp: close_issue_def session_patch_def invoke_def Let_def
           split: prod.splits sum.splits)

lemma resolve_issue_as_wont_fix_calls:
  "resolve_issue_as_wont_fix sv k s = (r, s1) \<Longrightarrow> calls s1 = calls s @ [SonarResolveWontFix k]"
  unfolding resolve_issue_as_wont_fix_def by (rule invoke_calls)

lemma mock_get_issues:
  "get_issues (mock_collaborators a b fs items ok) pk ts s
     = (Inr fs, \<lparr>world = (), calls = calls s @ [SonarGetIssues pk ts]\<rparr>)"
  by (simp add: get_issues_def invoke_def mock_collaborators_def)

lemma mock_get_issues_with_label:
  "get_issues_with_label (mock_collaborators a b fs items ok) repo label s
     = (Inr items, \<lparr>world = (), calls = calls s @ [GitHubGetIssuesWithLabel repo label]\<rparr>)"
  by (simp add: get_issues_with_label_def invoke_def mock_collaborators_def)

lemma mock_create_issue_fails:
  "create_issue (mock_collaborators a b fs items False) repo t bd ls s
     = (Inl (Exception ''Failed to create GitHub issue''),
        \<lparr>world = (), calls = calls s @ [GitHubCreateIssue repo t bd ls]\<rparr>)"
  by (simp add: create_issue_def invoke_def mock_collaborators_def)

lemma example_url:
  "url example_finding
     = ''https://sonarcloud.io/project/issues?id=test-project&issues=test-key&open=test-key''"
  by (simp add: url_def example_finding_def)

lemma unmarked_not_linked: "\<not> sublist (url example_finding) (body unmarked_item)"
  by (simp add: example_url unmarked_item_def sublist_code)

lemma store_fetch:
  "get_issues_with_label (store_collaborators repo findings) r l s
     = (Inr (filter (\<lambda>gi. List.member (labels gi) l) (world s)),
        \<lparr>world = world s, calls = calls s @ [GitHubGetIssuesWithLabel r l]\<rparr>)"
  by (simp add: get_issues_with_label_def invoke_def store_collaborators_def)

lemma apply_patch_close: "apply_patch [(''state'', ''closed'')] gi = gi\<lparr>state := ''closed''\<rparr>"
  by (simp add: apply_patch_def)

section \<open>The full pass\<close>

lemma dict_merge_results:
  "dict_merge [(''created'', c), (''skipped'', k), (''closed'', cl)] [(''marked_wont_fix'', m)]
   = [(''created'', c), (''skipped'', k), (''closed'', cl), (''marked_wont_fix'', m)]"
  by (simp add: dict_merge_def)

lemma sync_sonar_to_github_keys:
  "sync_sonar_to_github sv config dry_run s = (Inr a, s') \<Longrightarrow>
   \<exists>c k cl. a = [(''created'', c), (''skipped'', k), (''closed'', cl)]"
  by (auto simp: sync_sonar_to_github_def split: prod.splits sum.splits)

lemma sync_github_to_sonar_keys:
  "sync_github_to_sonar sv config dry_run s = (Inr b, s') \<Longrightarrow>
   \<exists>m. b = [(''marked_wont_fix'', m)]"
  by (auto simp: sync_github_to_sonar_def split: prod.splits sum.splits)

text \<open>
  C8. A full pass tests the SonarCloud connection first and the GitHub connection second.
  If the first answers false the pass raises with that one call issued; if the second
  answers false it raises with those two calls issued; nothing is fetched, created, closed
  or marked, and no result is returned. If both answer true the pass is the forward sync
  followed by the reverse sync, and when both return, the result is their two dicts merged:
  keys \<open>created\<close>, \<open>skipped\<close>, \<open>closed\<close> of the first and \<open>marked_wont_fix\<close> of the second,
  which are disjoint.
\<close>

theorem full_sync_validates_first:
  assumes t1: "sonar_client_test_connection sv s = (r1, s1)"
    and t2: "github_client_test_connection sv (github_repo config) s1 = (r2, s2)"
  shows "(r1 = Inr False \<longrightarrow>
            (\<exists>e. full_sync sv config dry_run s = (Inl e, s1))
            \<and> calls s1 = calls s @ [SonarTestConnection])
       \<and> (r1 = Inr True \<and> r2 = Inr False \<longrightarrow>
            (\<exists>e. full_sync sv config dry_run s = (Inl e, s2))
            \<and> calls s2 = calls s @ [SonarTestConnection, GitHubTestConnection (github_repo config)])
       \<and> (r1 = Inr True \<and> r2 = Inr True \<longrightarrow>
            full_sync sv config dry_run s =
              (case sync_sonar_to_github sv config dry_run s2 of
                 (Inl e, s3) \<Rightarrow> (Inl e, s3)
               | (Inr a, s3) \<Rightarrow>
                   (case sync_github_to_sonar sv config dry_run s3 of
                      (Inl e, s4) \<Rightarrow> (Inl e, s4)
                    | (Inr b, s4) \<Rightarrow> (Inr (dict_merge a b), s4)))
            \<and> (\<forall>a s3 b s4.
                  sync_sonar_to_github sv config dry_run s2 = (Inr a, s3)
                  \<and> sync_github_to_sonar sv config dry_run s3 = (Inr b, s4)
                  \<longrightarrow> map fst a = [''created'', ''skipped'', ''closed'']
                      \<and> map fst b = [''marked_wont_fix'']
                      \<and> set (map fst a) \<inter> set (map fst b) = {}
                      \<and> full_sync sv config dry_run s = (Inr (a @ b), s4)))"
proof (intro conjI impI)
  assume "r1 = Inr False"
  with t1 show "\<exists>e. full_sync sv config dry_run s = (Inl e, s1)"
    by (simp add: full_sync_def validate_credentials_def)
next
  assume "r1 = Inr False"
  from t1 show "calls s1 = calls s @ [SonarTestConnection]"
    unfolding sonar_client_test_connection_def by (rule invoke_calls)
next
  assume "r1 = Inr True \<and> r2 = Inr False"
  with t1 t2 show "\<exists>e. full_sync sv config dry_run s = (Inl e, s2)"
    by (simp add: full_sync_def validate_credentials_def)
next
  assume "r1 = Inr True \<and> r2 = Inr False"
  have "calls s1 = calls s @ [SonarTestConnection]"
    using t1 unfolding sonar_client_test_connection_def by (rule invoke_calls)
  moreover have "calls s2 = calls s1 @ [GitHubTestConnection (github_repo config)]"
    using t2 unfolding github_client_test_connection_def by (rule invoke_calls)
  ultimately show "calls s2 = calls s @ [SonarTestConnection, GitHubTestConnection (github_repo config)]"
    by simp
next
  assume ok: "r1 = Inr True \<and> r2 = Inr True"
  with t1 t2 show fs: "full_sync sv config dry_run s =
              (case sync_sonar_to_github sv config dry_run s2 of
                 (Inl e, s3) \<Rightarrow> (Inl e, s3)
               | (Inr a, s3) \<Rightarrow>
                   (case sync_github_to_sonar sv config dry_run s3 of
                      (Inl e, s4) \<Rightarrow> (Inl e, s4)
                    | (Inr b, s4) \<Rightarrow> (Inr (dict_merge a b), s4)))"
    by (simp add: full_sync_def validate_credentials_def)
  show "\<forall>a s3 b s4.
                  sync_sonar_to_github sv config dry_run s2 = (Inr a, s3)
                  \<and> sync_github_to_sonar sv config dry_run s3 = (Inr b, s4)
                  \<longrightarrow> map fst a = [''created'', ''skipped'', ''closed'']
                      \<and> map fst b = [''marked_wont_fix'']
                      \<and> set (map fst a) \<inter> set (map fst b) = {}
                      \<and> full_sync sv config dry_run s = (Inr (a @ b), s4)"
  proof (intro allI impI)
    fix a s3 b s4
    assume h: "sync_sonar_to_github sv config dry_run s2 = (Inr a, s3)
                  \<and> sync_github_to_sonar sv config dry_run s3 = (Inr b, s4)"
    obtain c k cl where a: "a = [(''created'', c), (''skipped'', k), (''closed'', cl)]"
      using sync_sonar_to_github_keys [OF h [THEN conjunct1]] by blast
    obtain m where b: "b = [(''marked_wont_fix'', m)]"
      using sync_github_to_sonar_keys [OF h [THEN conjunct2]] by blast
    have "dict_merge a b = a @ b" unfolding a b by (simp add: dict_merge_results)
    with h fs show "map fst a = [''created'', ''skipped'', ''closed'']
                      \<and> map fst b = [''marked_wont_fix'']
                      \<and> set (map fst a) \<inter> set (map fst b) = {}
                      \<and> full_sync sv config dry_run s = (Inr (a @ b), s4)"
      by (simp add: a b)
  qed
qed

theorem full_sync_validates_first_witness:
  "(\<exists>e. full_sync (mock_collaborators False True [] [] True) example_config False start
          = (Inl e, \<lparr>world = (), calls = [SonarTestConnection]\<rparr>))
   \<and> (\<exists>e. full_sync (mock_collaborators True False [] [] True) example_config False start
          = (Inl e, \<lparr>world = (), calls = [SonarTestConnection, GitHubTestConnection ''o/r'']\<rparr>))
   \<and> fst (full_sync (mock_collaborators True True [example_finding]
              [linked_item, stale_item, declined_item, unmarked_item] True)
            example_config False start)
       = Inr [(''created'', 0), (''skipped'', 1), (''closed'', 1), (''marked_wont_fix'', 1)]"
proof -
  let ?s1 = "\<lparr>world = (), calls = [SonarTestConnection]\<rparr>"
  let ?s2 = "\<lparr>world = (), calls = [SonarTestConnection, GitHubTestConnection ''o/r'']\<rparr>"
  let ?sv = "mock_collaborators True True [example_finding]
              [linked_item, stale_item, declined_item, unmarked_item] True"
  have repo: "github_repo example_config = ''o/r''" by (simp add: example_config_def)
  have a: "sonar_client_test_connection (mock_collaborators False True [] [] True) start
           = (Inr False, ?s1)"
    by (simp add: sonar_client_test_connection_def invoke_def mock_collaborators_def start_def)
  obtain r2 s2 where b: "github_client_test_connection (mock_collaborators False True [] [] True)
       (github_repo example_config) ?s1 = (r2, s2)"
    by (cases "github_client_test_connection (mock_collaborators False True [] [] True)
       (github_repo example_config) ?s1")
  have c: "sonar_client_test_connection (mock_collaborators True False [] [] True) start
           = (Inr True, ?s1)"
    by (simp add: sonar_client_test_connection_def invoke_def mock_collaborators_def start_def)
  have d: "github_client_test_connection (mock_collaborators True False [] [] True)
       (github_repo example_config) ?s1 = (Inr False, ?s2)"
    by (simp add: github_client_test_connection_def invoke_def mock_collaborators_def repo)
  have e: "sonar_client_test_connection ?sv start = (Inr True, ?s1)"
    by (simp add: sonar_client_test_connection_def invoke_def mock_collaborators_def start_def)
  have f: "github_client_test_connection ?sv (github_repo example_config) ?s1 = (Inr True, ?s2)"
    by (simp add: github_client_test_connection_def invoke_def mock_collaborators_def repo)
  have g: "fst (sync_sonar_to_github ?sv example_config False ?s2)
             = Inr [(''created'', 0), (''skipped'', 1), (''closed'', 1)]"
    by code_simp
  have h: "fst (sync_github_to_sonar ?sv example_config False
                 (snd (sync_sonar_to_github ?sv example_config False ?s2)))
             = Inr [(''marked_wont_fix'', 1)]"
    by code_simp
  from full_sync_validates_first [OF e f, of False] g h
  have "fst (full_sync ?sv example_config False start)
       = Inr [(''created'', 0), (''skipped'', 1), (''closed'', 1), (''marked_wont_fix'', 1)]"
    by (auto split: prod.splits sum.splits)
  with full_sync_validates_first [OF a b, of False] full_sync_validates_first [OF c d, of False]
  show ?thesis by (simp add: repo)
qed

section \<open>The loop over the findings\<close>

lemma create_loop_append:
  "create_loop sv config dry_run (xs @ ys) acc s =
     (case create_loop sv config dry_run xs acc s of
        (Inl e, s') \<Rightarrow> (Inl e, s')
      | (Inr acc', s') \<Rightarrow> create_loop sv config dry_run ys acc' s')"
proof (induction xs arbitrary: acc s dry_run)
  case Nil
  show ?case by (cases acc) simp
next
  case (Cons x xs)
  obtain cr sk where acc: "acc = (cr, sk)" by (cases acc)
  obtain r s1 where
    look: "issue_exists_with_sonar_link sv (github_repo config) (url x) s = (r, s1)"
    by (cases "issue_exists_with_sonar_link sv (github_repo config) (url x) s")
  show ?case
  proof (cases r)
    case (Inl e)
    with look show ?thesis by (simp add: acc)
  next
    case (Inr found)
    show ?thesis
    proof (cases found)
      case (Some gi)
      with Inr look show ?thesis by (simp add: acc Cons.IH)
    next
      case None
      obtain c s2 where
        cr: "create_issue sv (github_repo config) (message x) (create_github_issue_body x)
               (''sonarcloud'' # tags x) s1 = (c, s2)"
        by (cases "create_issue sv (github_repo config) (message x)
               (create_github_issue_body x) (''sonarcloud'' # tags x) s1")
      show ?thesis
      proof (cases dry_run)
        case True
        then have d: "dry_run = True" by simp
        show ?thesis
          unfolding d using None Inr look by (simp add: acc Cons.IH)
      next
        case False
        then have d: "dry_run = False" by simp
        show ?thesis
          unfolding d using None Inr look cr by (cases c) (simp_all add: acc Cons.IH)
      qed
    qed
  qed
qed

lemma find_first:
  assumes "\<exists>x\<in>set xs. P x"
  shows "\<exists>before x after. xs = before @ x # after \<and> P x \<and> (\<forall>y\<in>set before. \<not> P y)
           \<and> find P xs = Some x"
  using assms
proof (induction xs)
  case Nil
  then show ?case by simp
next
  case (Cons a xs)
  show ?case
  proof (cases "P a")
    case True
    then have "a # xs = [] @ a # xs \<and> P a \<and> (\<forall>y\<in>set []. \<not> P y) \<and> find P (a # xs) = Some a"
      by simp
    then show ?thesis by blast
  next
    case False
    with Cons.prems have "\<exists>x\<in>set xs. P x" by simp
    from Cons.IH [OF this] obtain before x after where
      h: "xs = before @ x # after" "P x" "\<forall>y\<in>set before. \<not> P y" "find P xs = Some x"
      by blast
    from h False have "a # xs = (a # before) @ x # after \<and> P x
        \<and> (\<forall>y\<in>set (a # before). \<not> P y) \<and> find P (a # xs) = Some x"
      by simp
    then show ?thesis by blast
  qed
qed

text \<open>
  C2. When the loop over the findings reaches a finding whose URL is a substring of the
  body of some item of the list the tracker returns for it, the lookup returns the first
  such item in list order, the only call issued for the finding is that fetch (no create
  call, in either mode), the skipped counter goes up by one and the created counter stays,
  and the loop goes on with the findings after it.
\<close>

theorem linked_finding_is_skipped:
  assumes pre: "create_loop sv config dry_run pre (0, 0) s0 = (Inr (cr, sk), s)"
    and fetch: "get_issues_with_label sv (github_repo config) ''sonarcloud'' s = (Inr items, s1)"
    and hit: "\<exists>gi\<in>set items. sublist (url si) (body gi)"
  shows "\<exists>before gi after.
           items = before @ gi # after
           \<and> sublist (url si) (body gi)
           \<and> (\<forall>x\<in>set before. \<not> sublist (url si) (body x))
           \<and> issue_exists_with_sonar_link sv (github_repo config) (url si) s = (Inr (Some gi), s1)
           \<and> calls s1 = calls s @ [GitHubGetIssuesWithLabel (github_repo config) ''sonarcloud'']
           \<and> create_loop sv config dry_run (pre @ [si]) (0, 0) s0 = (Inr (cr, sk + 1), s1)
           \<and> create_loop sv config dry_run (pre @ si # post) (0, 0) s0
               = create_loop sv config dry_run post (cr, sk + 1) s1"
proof -
  from find_first [OF hit] obtain before gi after where
    h: "items = before @ gi # after" "sublist (url si) (body gi)"
       "\<forall>x\<in>set before. \<not> sublist (url si) (body x)"
       "find (\<lambda>issue. sublist (url si) (body issue)) items = Some gi"
    by blast
  have look: "issue_exists_with_sonar_link sv (github_repo config) (url si) s = (Inr (Some gi), s1)"
    using fetch h(4) by (simp add: issue_exists_with_sonar_link_def)
  have cs: "calls s1 = calls s @ [GitHubGetIssuesWithLabel (github_repo config) ''sonarcloud'']"
    using fetch unfolding get_issues_with_label_def by (rule invoke_calls)
  have step: "create_loop sv config dry_run (si # rest) (cr, sk) s
                = create_loop sv config dry_run rest (cr, sk + 1) s1" for rest
    using look by simp
  have one: "create_loop sv config dry_run (pre @ [si]) (0, 0) s0 = (Inr (cr, sk + 1), s1)"
    using pre step [of "[]"] by (simp add: create_loop_append)
  have all: "create_loop sv config dry_run (pre @ si # post) (0, 0) s0
               = create_loop sv config dry_run post (cr, sk + 1) s1"
    using pre step [of post] by (simp add: create_loop_append)
  from h(1,2,3) look cs one all show ?thesis by blast
qed

theorem linked_finding_is_skipped_witness:
  "get_issues_with_label (mock_collaborators True True [example_finding]
       [unmarked_item, linked_item] True) ''o/r'' ''sonarcloud'' start
     = (Inr [unmarked_item, linked_item],
        \<lparr>world = (), calls = [GitHubGetIssuesWithLabel ''o/r'' ''sonarcloud'']\<rparr>)
   \<and> sublist (url example_finding) (body linked_item)
   \<and> create_loop (mock_collaborators True True [example_finding]
          [unmarked_item, linked_item] True) example_config False [example_finding] (0, 0) start
       = (Inr (0, 1), \<lparr>world = (), calls = [GitHubGetIssuesWithLabel ''o/r'' ''sonarcloud'']\<rparr>)"
proof -
  let ?sv = "mock_collaborators True True [example_finding] [unmarked_item, linked_item] True"
  let ?s1 = "\<lparr>world = (), calls = [GitHubGetIssuesWithLabel ''o/r'' ''sonarcloud'']\<rparr>"
  have repo: "github_repo example_config = ''o/r''" by (simp add: example_config_def)
  have pre: "create_loop ?sv example_config False [] (0, 0) start = (Inr (0, 0), start)"
    by simp
  have fetch: "get_issues_with_label ?sv (github_repo example_config) ''sonarcloud'' start
                 = (Inr [unmarked_item, linked_item], ?s1)"
    by (simp add: repo mock_get_issues_with_label start_def)
  have link: "sublist (url example_finding) (body linked_item)"
    by (simp add: linked_item_def url_in_built_body)
  then have hit: "\<exists>gi\<in>set [unmarked_item, linked_item]. sublist (url example_finding) (body gi)"
    by simp
  from linked_finding_is_skipped [OF pre fetch hit, of "[]"] fetch link
  show ?thesis by (auto simp: repo)
qed

lemma create_loop_total:
  assumes "\<forall>w. \<exists>items w'. github_get_issues_with_label sv (github_repo config) ''sonarcloud'' w
                 = (Inr items, w')"
  shows "\<exists>r s'. create_loop sv config dry_run fs acc s = (Inr r, s')"
proof (induction fs arbitrary: acc s dry_run)
  case Nil
  show ?case by (cases acc) simp
next
  case (Cons f fs)
  obtain cr sk where acc: "acc = (cr, sk)" by (cases acc)
  from assms obtain items w' where
    "github_get_issues_with_label sv (github_repo config) ''sonarcloud'' (world s) = (Inr items, w')"
    by blast
  then have "\<exists>r s1. issue_exists_with_sonar_link sv (github_repo config) (url f) s = (Inr r, s1)"
    by (simp add: issue_exists_with_sonar_link_def get_issues_with_label_def invoke_def)
  then obtain r s1 where
    look: "issue_exists_with_sonar_link sv (github_repo config) (url f) s = (Inr r, s1)"
    by blast
  obtain c s2 where
    cr: "create_issue sv (github_repo config) (message f) (create_github_issue_body f)
           (''sonarcloud'' # tags f) s1 = (c, s2)"
    by (cases "create_issue sv (github_repo config) (message f)
           (create_github_issue_body f) (''sonarcloud'' # tags f) s1")
  show ?case
    unfolding acc using look cr Cons.IH
    by (cases r; cases c) simp_all
qed

lemma agree_refl: "world s = world t \<Longrightarrow> agree s t (r, s) (r, t)"
  by (simp add: agree_def)

lemma agree_step:
  assumes "agree s t (a, s1) (b, t1)" and "agree s1 t1 p q"
  shows "agree s t p q"
  using assms by (auto simp: agree_def)

lemma agree_world: "agree s t (a, s1) (b, t1) \<Longrightarrow> world s1 = world t1 \<and> a = b"
  by (simp add: agree_def)

lemma invoke_agree:
  "world s = world t \<Longrightarrow> agree s t (invoke c f s) (invoke c f t)"
  by (auto simp: agree_def invoke_def split: prod.splits)

lemma lookup_agree:
  assumes "world s = world t"
  shows "agree s t (issue_exists_with_sonar_link sv repo u s)
                   (issue_exists_with_sonar_link sv repo u t)"
proof -
  have "agree s t (get_issues_with_label sv repo ''sonarcloud'' s)
                  (get_issues_with_label sv repo ''sonarcloud'' t)"
    unfolding get_issues_with_label_def using assms by (rule invoke_agree)
  then show ?thesis
    by (auto simp: agree_def issue_exists_with_sonar_link_def split: prod.splits sum.splits)
qed

lemma create_issue_agree:
  "world s = world t \<Longrightarrow>
   agree s t (create_issue sv repo ttl b l s) (create_issue sv repo ttl b l t)"
  unfolding create_issue_def by (rule invoke_agree)

lemma close_issue_agree:
  assumes "world s = world t"
  shows "agree s t (close_issue sv repo n s) (close_issue sv repo n t)"
proof -
  have "agree s t (session_patch sv (issue_url repo n) [(''state'', ''closed'')] s)
                  (session_patch sv (issue_url repo n) [(''state'', ''closed'')] t)"
    unfolding session_patch_def using assms by (rule invoke_agree)
  then show ?thesis
    by (auto simp: agree_def close_issue_def split: prod.splits sum.splits)
qed

lemma agree_result:
  "agree s t (a, s1) (b, t1) \<Longrightarrow> agree s t (c, s1) (c, t1)"
  by (simp add: agree_def)

lemma create_loop_agree:
  "world s = world t \<Longrightarrow>
   agree s t (create_loop sv config d fs acc s) (create_loop sv config d fs acc t)"
proof (induction fs arbitrary: acc s t d)
  case Nil
  then show ?case by (cases acc) (simp add: agree_def)
next
  case (Cons f fs)
  obtain cr sk where acc: "acc = (cr, sk)" by (cases acc)
  obtain x s1 where ls: "issue_exists_with_sonar_link sv (github_repo config) (url f) s = (x, s1)"
    by (cases "issue_exists_with_sonar_link sv (github_repo config) (url f) s")
  obtain x' t1 where lt: "issue_exists_with_sonar_link sv (github_repo config) (url f) t = (x', t1)"
    by (cases "issue_exists_with_sonar_link sv (github_repo config) (url f) t")
  from lookup_agree [OF Cons.prems, of sv "github_repo config" "url f"] ls lt
  have a1: "agree s t (x, s1) (x', t1)" by simp
  then have w1: "world s1 = world t1" and xx: "x' = x" by (simp_all add: agree_def)
  obtain y s2 where cs: "create_issue sv (github_repo config) (message f)
      (create_github_issue_body f) (''sonarcloud'' # tags f) s1 = (y, s2)"
    by (cases "create_issue sv (github_repo config) (message f)
      (create_github_issue_body f) (''sonarcloud'' # tags f) s1")
  obtain y' t2 where ct: "create_issue sv (github_repo config) (message f)
      (create_github_issue_body f) (''sonarcloud'' # tags f) t1 = (y', t2)"
    by (cases "create_issue sv (github_repo config) (message f)
      (create_github_issue_body f) (''sonarcloud'' # tags f) t1")
  from create_issue_agree [OF w1, of sv "github_repo config" "message f"
      "create_github_issue_body f" "''sonarcloud'' # tags f"] cs ct
  have a2: "agree s1 t1 (y, s2) (y', t2)" by simp
  then have w2: "world s2 = world t2" and yy: "y' = y" by (simp_all add: agree_def)
  have a12: "agree s t (y, s2) (y', t2)" using a1 a2 by (rule agree_step)
  show ?case
  proof (cases x)
    case (Inl e)
    with ls lt xx agree_result [OF a1] show ?thesis by (simp add: acc)
  next
    case (Inr found)
    show ?thesis
    proof (cases found)
      case (Some gi)
      have "agree s t (create_loop sv config d fs (cr, sk + 1) s1)
                      (create_loop sv config d fs (cr, sk + 1) t1)"
        using a1 Cons.IH [OF w1] by (rule agree_step)
      with ls lt xx Inr Some show ?thesis by (simp add: acc)
    next
      case None
      show ?thesis
      proof (cases d)
        case True
        then have dd: "d = True" by simp
        have "agree s t (create_loop sv config True fs (cr + 1, sk) s1)
                        (create_loop sv config True fs (cr + 1, sk) t1)"
          using a1 Cons.IH [OF w1] by (rule agree_step)
        with ls lt xx Inr None show ?thesis unfolding dd by (simp add: acc)
      next
        case False
        then have dd: "d = False" by simp
        have r: "agree s t (create_loop sv config False fs acc' s2)
                        (create_loop sv config False fs acc' t2)" for acc'
          using a12 Cons.IH [OF w2] by (rule agree_step)
        show ?thesis
          unfolding dd using ls lt xx Inr None cs ct yy r [of "(cr + 1, sk)"] r [of "(cr, sk)"]
          by (cases y) (simp_all add: acc)
      qed
    qed
  qed
qed

lemma close_loop_agree:
  "world s = world t \<Longrightarrow>
   agree s t (close_loop sv config d sis items n s) (close_loop sv config d sis items n t)"
proof (induction items arbitrary: n s t d)
  case Nil
  then show ?case by (simp add: agree_def)
next
  case (Cons gi items)
  obtain y s1 where cs: "close_issue sv (github_repo config) (number gi) s = (y, s1)"
    by (cases "close_issue sv (github_repo config) (number gi) s")
  obtain y' t1 where ct: "close_issue sv (github_repo config) (number gi) t = (y', t1)"
    by (cases "close_issue sv (github_repo config) (number gi) t")
  from close_issue_agree [OF Cons.prems, of sv "github_repo config" "number gi"] cs ct
  have a1: "agree s t (y, s1) (y', t1)" by simp
  then have w1: "world s1 = world t1" and yy: "y' = y" by (simp_all add: agree_def)
  have r: "agree s t (close_loop sv config d' sis items n' s1)
                     (close_loop sv config d' sis items n' t1)" for n' d'
    using a1 Cons.IH [OF w1] by (rule agree_step)
  note same = Cons.IH [OF Cons.prems]
  show ?case
    using cs ct yy r same
    by (cases y) (simp_all split: option.splits)
qed

lemma forward_from_agree:
  assumes "world s = world t"
  shows "agree s t (forward_from sv config d sis todo acc s)
                   (forward_from sv config d sis todo acc t)"
proof -
  obtain x s2 where ls: "create_loop sv config d todo acc s = (x, s2)"
    by (cases "create_loop sv config d todo acc s")
  obtain x' t2 where lt: "create_loop sv config d todo acc t = (x', t2)"
    by (cases "create_loop sv config d todo acc t")
  from create_loop_agree [OF assms, of sv config d todo acc] ls lt
  have a1: "agree s t (x, s2) (x', t2)" by simp
  then have w2: "world s2 = world t2" and xx: "x' = x" by (simp_all add: agree_def)
  obtain y s3 where fs: "get_issues_with_label sv (github_repo config) ''sonarcloud'' s2 = (y, s3)"
    by (cases "get_issues_with_label sv (github_repo config) ''sonarcloud'' s2")
  obtain y' t3 where ft: "get_issues_with_label sv (github_repo config) ''sonarcloud'' t2 = (y', t3)"
    by (cases "get_issues_with_label sv (github_repo config) ''sonarcloud'' t2")
  have "agree s2 t2 (get_issues_with_label sv (github_repo config) ''sonarcloud'' s2)
                    (get_issues_with_label sv (github_repo config) ''sonarcloud'' t2)"
    unfolding get_issues_with_label_def using w2 by (rule invoke_agree)
  with fs ft have a2: "agree s2 t2 (y, s3) (y', t3)" by simp
  then have w3: "world s3 = world t3" and yy: "y' = y" by (simp_all add: agree_def)
  have a13: "agree s t (y, s3) (y', t3)" using a1 a2 by (rule agree_step)
  show ?thesis
  proof (cases x)
    case (Inl e)
    with ls lt xx agree_result [OF a1] show ?thesis by (simp add: forward_from_def)
  next
    case counts: (Inr p)
    obtain cr sk where p: "p = (cr, sk)" by (cases p)
    show ?thesis
    proof (cases y)
      case (Inl e)
      with ls lt xx counts p fs ft yy agree_result [OF a13] show ?thesis
        by (simp add: forward_from_def)
    next
      case (Inr items)
      obtain cl s4 where c4: "close_loop sv config d sis items 0 s3 = (cl, s4)"
        by (cases "close_loop sv config d sis items 0 s3")
      obtain cl' t4 where c4': "close_loop sv config d sis items 0 t3 = (cl', t4)"
        by (cases "close_loop sv config d sis items 0 t3")
      from close_loop_agree [OF w3, of sv config d sis items 0] c4 c4'
      have "agree s3 t3 (cl, s4) (cl', t4)" by simp
      with a13 have "agree s t (cl, s4) (cl', t4)" by (rule agree_step)
      then show ?thesis
        using ls lt xx counts p fs ft yy Inr c4 c4'
        by (simp add: forward_from_def agree_def)
    qed
  qed
qed

lemma sync_sonar_to_github_forward_from:
  "sync_sonar_to_github sv config d s =
     (case get_issues sv (sonar_project_key config) (issue_types config) s of
        (Inl e, s1) \<Rightarrow> (Inl e, s1)
      | (Inr sonar_issues, s1) \<Rightarrow> forward_from sv config d sonar_issues sonar_issues (0, 0) s1)"
  by (simp add: sync_sonar_to_github_def forward_from_def split: prod.splits sum.splits)

lemma forward_from_append:
  "create_loop sv config d pre acc s = (Inr acc', s') \<Longrightarrow>
   forward_from sv config d sis (pre @ post) acc s = forward_from sv config d sis post acc' s'"
  by (simp add: forward_from_def create_loop_append)


text \<open>
  C7, as the code has it. In execution mode, when the loop reaches a finding that has no
  linked item and its \<open>create_issue\<close> raises, the exception is caught: the pass does not
  abort, neither counter changes for the finding, and the pass goes on with the findings
  after it from those counters. The loop returns whenever the lookups do, whatever
  \<open>create_issue\<close> does. When the failed call left the world of the collaborators as it
  was, the rest of the pass agrees with the run in which the create was never attempted
  (the run that goes on from the state after the lookup): the same counters \<open>created\<close>,
  \<open>skipped\<close> and \<open>closed\<close>, the same world at the end, and the same calls issued afterwards,
  that is the same create and close decisions for every other finding and every item.
\<close>

theorem failed_create_is_swallowed:
  assumes fetch_f: "get_issues sv (sonar_project_key config) (issue_types config) s
                      = (Inr (pre @ si # post), sa)"
    and pre: "create_loop sv config False pre (0, 0) sa = (Inr (cr, sk), sb)"
    and look: "issue_exists_with_sonar_link sv (github_repo config) (url si) sb = (Inr None, s1)"
    and fail: "create_issue sv (github_repo config) (message si) (create_github_issue_body si)
                 (''sonarcloud'' # tags si) s1 = (Inl e, s2)"
  shows "create_loop sv config False (pre @ [si]) (0, 0) sa = (Inr (cr, sk), s2)
       \<and> create_loop sv config False (pre @ si # post) (0, 0) sa
           = create_loop sv config False post (cr, sk) s2
       \<and> ((\<forall>w. \<exists>items w'. github_get_issues_with_label sv (github_repo config) ''sonarcloud'' w
                   = (Inr items, w'))
           \<longrightarrow> (\<exists>r s'. create_loop sv config False (pre @ si # post) (0, 0) sa = (Inr r, s')))
       \<and> sync_sonar_to_github sv config False s
           = forward_from sv config False (pre @ si # post) post (cr, sk) s2
       \<and> (world s2 = world s1
           \<longrightarrow> agree s2 s1
                 (forward_from sv config False (pre @ si # post) post (cr, sk) s2)
                 (forward_from sv config False (pre @ si # post) post (cr, sk) s1))"
proof -
  have step: "create_loop sv config False (si # rest) (cr, sk) sb
                = create_loop sv config False rest (cr, sk) s2" for rest
    using look fail by simp
  have one: "create_loop sv config False (pre @ [si]) (0, 0) sa = (Inr (cr, sk), s2)"
    using pre step [of "[]"] by (simp add: create_loop_append)
  have all: "create_loop sv config False (pre @ si # post) (0, 0) sa
               = create_loop sv config False post (cr, sk) s2"
    using pre step [of post] by (simp add: create_loop_append)
  have "forward_from sv config False (pre @ si # post) ((pre @ [si]) @ post) (0, 0) sa
          = forward_from sv config False (pre @ si # post) post (cr, sk) s2"
    using one by (rule forward_from_append)
  then have pass: "sync_sonar_to_github sv config False s
           = forward_from sv config False (pre @ si # post) post (cr, sk) s2"
    using fetch_f by (simp add: sync_sonar_to_github_forward_from)
  have cmp: "world s2 = world s1
           \<longrightarrow> agree s2 s1
                 (forward_from sv config False (pre @ si # post) post (cr, sk) s2)
                 (forward_from sv config False (pre @ si # post) post (cr, sk) s1)"
    using forward_from_agree by blast
  from one all create_loop_total pass cmp show ?thesis by blast
qed


theorem failed_create_is_swallowed_witness:
  "issue_exists_with_sonar_link
       (mock_collaborators True True [example_finding, other_finding]
          [unmarked_item, stale_item] False) ''o/r'' (url example_finding)
       \<lparr>world = (), calls = [SonarGetIssues ''test-project'' [''BUG'']]\<rparr>
     = (Inr None,
        \<lparr>world = (),
         calls = [SonarGetIssues ''test-project'' [''BUG''],
                  GitHubGetIssuesWithLabel ''o/r'' ''sonarcloud'']\<rparr>)
   \<and> fst (sync_sonar_to_github
            (mock_collaborators True True [example_finding, other_finding]
               [unmarked_item, stale_item] False) example_config False start)
       = Inr [(''created'', 0), (''skipped'', 0), (''closed'', 1)]
   \<and> fst (forward_from
            (mock_collaborators True True [example_finding, other_finding]
               [unmarked_item, stale_item] False) example_config False
            [example_finding, other_finding] [other_finding] (0, 0)
            \<lparr>world = (),
             calls = [SonarGetIssues ''test-project'' [''BUG''],
                      GitHubGetIssuesWithLabel ''o/r'' ''sonarcloud'']\<rparr>)
       = Inr [(''created'', 0), (''skipped'', 0), (''closed'', 1)]"
proof -
  let ?sv = "mock_collaborators True True [example_finding, other_finding]
               [unmarked_item, stale_item] False"
  let ?sa = "\<lparr>world = (), calls = [SonarGetIssues ''test-project'' [''BUG'']]\<rparr>"
  let ?s1 = "\<lparr>world = (),
             calls = [SonarGetIssues ''test-project'' [''BUG''],
                      GitHubGetIssuesWithLabel ''o/r'' ''sonarcloud'']\<rparr>"
  let ?s2 = "\<lparr>world = (),
             calls = [SonarGetIssues ''test-project'' [''BUG''],
                      GitHubGetIssuesWithLabel ''o/r'' ''sonarcloud'',
                      GitHubCreateIssue ''o/r'' (message example_finding)
                        (create_github_issue_body example_finding)
                        (''sonarcloud'' # tags example_finding)]\<rparr>"
  have cfg: "github_repo example_config = ''o/r''"
    "sonar_project_key example_config = ''test-project''" "issue_types example_config = [''BUG'']"
    by (simp_all add: example_config_def)
  have h1: "get_issues ?sv (sonar_project_key example_config) (issue_types example_config) start
              = (Inr ([] @ example_finding # [other_finding]), ?sa)"
    by (simp add: mock_get_issues cfg start_def)
  have h2: "create_loop ?sv example_config False [] (0, 0) ?sa = (Inr (0, 0), ?sa)"
    by simp
  have nl: "\<not> sublist (url example_finding) (body stale_item)"
    by (simp add: example_url stale_item_def sublist_code)
  have h3: "issue_exists_with_sonar_link ?sv (github_repo example_config)
              (url example_finding) ?sa = (Inr None, ?s1)"
    by (simp add: issue_exists_with_sonar_link_def cfg mock_get_issues_with_label
          unmarked_not_linked nl)
  have h4: "create_issue ?sv (github_repo example_config) (message example_finding)
              (create_github_issue_body example_finding)
              (''sonarcloud'' # tags example_finding) ?s1
            = (Inl (Exception ''Failed to create GitHub issue''), ?s2)"
    by (simp add: cfg mock_create_issue_fails)
  have v: "fst (forward_from ?sv example_config False [example_finding, other_finding]
                  [other_finding] (0, 0) ?s1)
             = Inr [(''created'', 0), (''skipped'', 0), (''closed'', 1)]"
    by code_simp
  from failed_create_is_swallowed [OF h1 h2 h3 h4]
  have "sync_sonar_to_github ?sv example_config False start
           = forward_from ?sv example_config False ([] @ example_finding # [other_finding])
               [other_finding] (0, 0) ?s2"
    and "agree ?s2 ?s1
           (forward_from ?sv example_config False ([] @ example_finding # [other_finding])
              [other_finding] (0, 0) ?s2)
           (forward_from ?sv example_config False ([] @ example_finding # [other_finding])
              [other_finding] (0, 0) ?s1)"
    by simp_all
  then have "fst (sync_sonar_to_github ?sv example_config False start)
               = Inr [(''created'', 0), (''skipped'', 0), (''closed'', 1)]"
    using v by (simp add: agree_def)
  with h3 v show ?thesis by (simp add: cfg)
qed


text \<open>
  C7, as the claim states it, fails on a tracker that stored the issue before the call
  raised: the second report of the same finding is then found linked and skipped, where
  it is created when the first create is never attempted.
\<close>

theorem failed_create_that_stored_changes_later_decisions:
  "issue_exists_with_sonar_link
       (raising_store ''o/r'' [example_finding, other_finding] ''Test message'') ''o/r''
       (url example_finding)
       \<lparr>world = [], calls = [SonarGetIssues ''test-project'' [''BUG'']]\<rparr>
     = (Inr None,
        \<lparr>world = [],
         calls = [SonarGetIssues ''test-project'' [''BUG''],
                  GitHubGetIssuesWithLabel ''o/r'' ''sonarcloud'']\<rparr>)
   \<and> fst (create_issue
            (raising_store ''o/r'' [example_finding, other_finding] ''Test message'') ''o/r''
            (message example_finding) (create_github_issue_body example_finding)
            (''sonarcloud'' # tags example_finding)
            \<lparr>world = [],
             calls = [SonarGetIssues ''test-project'' [''BUG''],
                      GitHubGetIssuesWithLabel ''o/r'' ''sonarcloud'']\<rparr>)
       = Inl (Exception ''Failed to create GitHub issue'')
   \<and> fst (sync_sonar_to_github
            (raising_store ''o/r'' [example_finding, other_finding] ''Test message'')
            example_config False \<lparr>world = [], calls = []\<rparr>)
       = Inr [(''created'', 0), (''skipped'', 1), (''closed'', 0)]
   \<and> fst (forward_from
            (raising_store ''o/r'' [example_finding, other_finding] ''Test message'')
            example_config False [example_finding, other_finding] [other_finding] (0, 0)
            \<lparr>world = [],
             calls = [SonarGetIssues ''test-project'' [''BUG''],
                      GitHubGetIssuesWithLabel ''o/r'' ''sonarcloud'']\<rparr>)
       = Inr [(''created'', 1), (''skipped'', 0), (''closed'', 0)]"
  by code_simp

section \<open>The closure loop\<close>

lemma close_loop_not_stale:
  "\<not> stale sis gi \<Longrightarrow>
   close_loop sv config d sis (gi # rest) n s = close_loop sv config d sis rest n s"
  by (auto simp: stale_def split: option.splits)

lemma close_loop_stale_preview:
  "stale sis gi \<Longrightarrow>
   close_loop sv config True sis (gi # rest) n s = close_loop sv config True sis rest (n + 1) s"
  by (auto simp: stale_def extract_nonempty split: option.splits)

lemma close_loop_stale_exec:
  assumes "stale sis gi" and "close_issue sv (github_repo config) (number gi) s = (r, s1)"
  shows "close_loop sv config False sis (gi # rest) n s
           = close_loop sv config False sis rest (case r of Inl e \<Rightarrow> n | Inr ok \<Rightarrow> n + 1) s1"
  using assms by (auto simp: stale_def extract_nonempty split: option.splits sum.splits)

lemma close_loop_preview:
  "close_loop sv config True sis items n s = (n + length (filter (stale sis) items), s)"
proof (induction items arbitrary: n)
  case Nil
  show ?case by simp
next
  case (Cons gi items)
  show ?case
  proof (cases "stale sis gi")
    case True
    show ?thesis
      by (simp add: close_loop_stale_preview [OF True] Cons.IH True del: close_loop.simps)
  next
    case False
    show ?thesis
      by (simp add: close_loop_not_stale [OF False] Cons.IH False del: close_loop.simps)
  qed
qed

lemma close_loop_exec:
  "\<exists>cl s'. close_loop sv config False sis items n s = (cl, s')
      \<and> calls s' = calls s @ map (close_request (github_repo config)) (filter (stale sis) items)
      \<and> n \<le> cl \<and> cl \<le> n + length (filter (stale sis) items)"
proof (induction items arbitrary: n s)
  case Nil
  show ?case by simp
next
  case (Cons gi items)
  show ?case
  proof (cases "stale sis gi")
    case False
    from Cons.IH [of n s] show ?thesis
      by (simp add: close_loop_not_stale [OF False] False del: close_loop.simps)
  next
    case True
    obtain r s1 where c: "close_issue sv (github_repo config) (number gi) s = (r, s1)"
      by (cases "close_issue sv (github_repo config) (number gi) s")
    let ?n1 = "case r of Inl e \<Rightarrow> n | Inr ok \<Rightarrow> n + 1"
    have n1: "n \<le> ?n1 \<and> ?n1 \<le> n + 1" by (cases r) simp_all
    from Cons.IH [of ?n1 s1] obtain cl s' where
      h: "close_loop sv config False sis items ?n1 s1 = (cl, s')"
         "calls s' = calls s1 @ map (close_request (github_repo config)) (filter (stale sis) items)"
         "?n1 \<le> cl" "cl \<le> ?n1 + length (filter (stale sis) items)"
      by blast
    have "close_loop sv config False sis (gi # items) n s = (cl, s')"
      using close_loop_stale_exec [OF True c] h(1) by simp
    moreover have "calls s' = calls s
        @ map (close_request (github_repo config)) (filter (stale sis) (gi # items))"
      using h(2) close_issue_calls [OF c] True by (simp add: close_request_def)
    moreover have "n \<le> cl \<and> cl \<le> n + length (filter (stale sis) (gi # items))"
      using h(3,4) n1 True by simp
    ultimately show ?thesis by blast
  qed
qed

text \<open>
  C3, as the code has it. In a forward-sync pass that reaches the closure loop, with the
  findings fetched at its start and the items fetched for the closure: in execution mode
  the calls issued by the loop are exactly one close request per stale item, in list
  order, and none for any other item (closed, without a key in its body, or with the key
  of a finding that is still open); in preview mode the loop issues no call at all and
  counts the stale items instead. The closed counter never exceeds the number of stale
  items, the other two counters are those of the first loop, and an open item whose body
  yields no key is passed over with the count and the state as they were.
\<close>

theorem close_requests_for_stale_items:
  assumes fetch_f: "get_issues sv (sonar_project_key config) (issue_types config) s
                      = (Inr sonar_issues, s1)"
    and loop1: "create_loop sv config dry_run sonar_issues (0, 0) s1 = (Inr (cr, sk), s2)"
    and fetch_g: "get_issues_with_label sv (github_repo config) ''sonarcloud'' s2
                    = (Inr github_issues, s3)"
  shows "(\<exists>cl s4.
           sync_sonar_to_github sv config dry_run s
             = (Inr [(''created'', cr), (''skipped'', sk), (''closed'', cl)], s4)
           \<and> calls s4 = calls s3
               @ (if dry_run then []
                  else map (close_request (github_repo config))
                         (filter (stale sonar_issues) github_issues))
           \<and> (if dry_run then cl = length (filter (stale sonar_issues) github_issues)
              else cl \<le> length (filter (stale sonar_issues) github_issues)))
       \<and> (\<forall>(gi :: GitHubIssue) rest n t.
             state gi = ''open'' \<and> extract_sonar_issue_key (body gi) = None
             \<longrightarrow> close_loop sv config dry_run sonar_issues (gi # rest) n t
                 = close_loop sv config dry_run sonar_issues rest n t)"
proof (intro conjI allI impI)
  show "\<exists>cl s4.
           sync_sonar_to_github sv config dry_run s
             = (Inr [(''created'', cr), (''skipped'', sk), (''closed'', cl)], s4)
           \<and> calls s4 = calls s3
               @ (if dry_run then []
                  else map (close_request (github_repo config))
                         (filter (stale sonar_issues) github_issues))
           \<and> (if dry_run then cl = length (filter (stale sonar_issues) github_issues)
              else cl \<le> length (filter (stale sonar_issues) github_issues))"
  proof (cases dry_run)
    case True
    then have d: "dry_run = True" by simp
    show ?thesis
      using fetch_f loop1 fetch_g unfolding d
      by (simp add: sync_sonar_to_github_def close_loop_preview)
  next
    case False
    then have d: "dry_run = False" by simp
    from close_loop_exec [of sv config sonar_issues github_issues 0 s3] obtain cl s4 where
      h: "close_loop sv config False sonar_issues github_issues 0 s3 = (cl, s4)"
         "calls s4 = calls s3
            @ map (close_request (github_repo config)) (filter (stale sonar_issues) github_issues)"
         "cl \<le> 0 + length (filter (stale sonar_issues) github_issues)"
      by blast
    show ?thesis
      using fetch_f loop1 fetch_g h unfolding d
      by (simp add: sync_sonar_to_github_def)
  qed
next
  fix gi :: GitHubIssue and rest n t
  assume "state gi = ''open'' \<and> extract_sonar_issue_key (body gi) = None"
  then have "\<not> stale sonar_issues gi" by (simp add: stale_def)
  then show "close_loop sv config dry_run sonar_issues (gi # rest) n t
               = close_loop sv config dry_run sonar_issues rest n t"
    by (rule close_loop_not_stale)
qed

theorem close_requests_for_stale_items_witness:
  "filter (stale [example_finding]) [linked_item, stale_item, declined_item, unmarked_item]
     = [stale_item]
   \<and> sync_sonar_to_github (mock_collaborators True True [example_finding]
          [linked_item, stale_item, declined_item, unmarked_item] True) example_config False start
       = (Inr [(''created'', 0), (''skipped'', 1), (''closed'', 1)],
          \<lparr>world = (),
           calls = [SonarGetIssues ''test-project'' [''BUG''],
                    GitHubGetIssuesWithLabel ''o/r'' ''sonarcloud'',
                    GitHubGetIssuesWithLabel ''o/r'' ''sonarcloud'',
                    GitHubPatch ''https://api.github.com/repos/o/r/issues/2''
                      [(''state'', ''closed'')]]\<rparr>)"
proof -
  let ?items = "[linked_item, stale_item, declined_item, unmarked_item]"
  let ?sv = "mock_collaborators True True [example_finding] ?items True"
  let ?s1 = "\<lparr>world = (), calls = [SonarGetIssues ''test-project'' [''BUG'']]\<rparr>"
  let ?s2 = "\<lparr>world = (), calls = [SonarGetIssues ''test-project'' [''BUG''],
                    GitHubGetIssuesWithLabel ''o/r'' ''sonarcloud'']\<rparr>"
  let ?s3 = "\<lparr>world = (), calls = [SonarGetIssues ''test-project'' [''BUG''],
                    GitHubGetIssuesWithLabel ''o/r'' ''sonarcloud'',
                    GitHubGetIssuesWithLabel ''o/r'' ''sonarcloud'']\<rparr>"
  have cfg: "github_repo example_config = ''o/r''"
    "sonar_project_key example_config = ''test-project''" "issue_types example_config = [''BUG'']"
    by (simp_all add: example_config_def)
  have f: "filter (stale [example_finding]) ?items = [stale_item]"
    by code_simp
  have u: "close_request ''o/r'' stale_item
             = GitHubPatch ''https://api.github.com/repos/o/r/issues/2'' [(''state'', ''closed'')]"
    by code_simp
  have h1: "get_issues ?sv (sonar_project_key example_config) (issue_types example_config) start
              = (Inr [example_finding], ?s1)"
    by (simp add: mock_get_issues cfg start_def)
  have h2: "create_loop ?sv example_config False [example_finding] (0, 0) ?s1 = (Inr (0, 1), ?s2)"
    by (simp add: issue_exists_with_sonar_link_def mock_get_issues_with_label cfg
          linked_item_def url_in_built_body)
  have h3: "get_issues_with_label ?sv (github_repo example_config) ''sonarcloud'' ?s2
              = (Inr ?items, ?s3)"
    by (simp add: mock_get_issues_with_label cfg)
  from close_requests_for_stale_items [OF h1 h2 h3]
  obtain cl s4 where
    r: "sync_sonar_to_github ?sv example_config False start
          = (Inr [(''created'', 0), (''skipped'', 1), (''closed'', cl)], s4)"
       "calls s4 = calls ?s3 @ map (close_request (github_repo example_config))
                     (filter (stale [example_finding]) ?items)"
    by auto
  have cl: "fst (sync_sonar_to_github ?sv example_config False start)
      = Inr [(''created'', 0), (''skipped'', 1), (''closed'', 1)]"
    by code_simp
  have w: "world s4 = ()" by simp
  from r cl have "cl = 1" by simp
  moreover from r(2) [unfolded f cfg] have "calls s4 = [SonarGetIssues ''test-project'' [''BUG''],
                    GitHubGetIssuesWithLabel ''o/r'' ''sonarcloud'',
                    GitHubGetIssuesWithLabel ''o/r'' ''sonarcloud'',
                    GitHubPatch ''https://api.github.com/repos/o/r/issues/2''
                      [(''state'', ''closed'')]]"
    by (simp add: u)
  ultimately show ?thesis using r(1) f w by (cases s4) simp
qed

text \<open>
  C3, as the claim states it, fails in preview mode: an open item whose body yields the
  key \<open>sonar-2\<close>, with no open finding of that key, is counted, and the pass issues its two
  fetches and no close request.
\<close>

theorem preview_issues_no_close_request:
  "state stale_item = ''open''
   \<and> extract_sonar_issue_key (body stale_item) = Some ''sonar-2''
   \<and> \<not> list_ex (\<lambda>si. key si = ''sonar-2'') []
   \<and> sync_sonar_to_github (mock_collaborators True True [] [stale_item] True)
        example_config True start
       = (Inr [(''created'', 0), (''skipped'', 0), (''closed'', 1)],
          \<lparr>world = (),
           calls = [SonarGetIssues ''test-project'' [''BUG''],
                    GitHubGetIssuesWithLabel ''o/r'' ''sonarcloud'']\<rparr>)"
  by code_simp

section \<open>The reverse sync\<close>

lemma wont_fix_loop_not_declined:
  "\<not> declined gi \<Longrightarrow>
   wont_fix_loop sv d (gi # rest) n s = wont_fix_loop sv d rest n s"
  by (auto simp: declined_def split: option.splits)

lemma wont_fix_loop_declined_preview:
  "declined gi \<Longrightarrow>
   wont_fix_loop sv True (gi # rest) n s = wont_fix_loop sv True rest (n + 1) s"
  by (auto simp: declined_def extract_nonempty split: option.splits)

lemma wont_fix_loop_declined_exec:
  assumes "declined gi"
    and "resolve_issue_as_wont_fix sv (the (extract_sonar_issue_key (body gi))) s = (r, s1)"
  shows "wont_fix_loop sv False (gi # rest) n s
           = wont_fix_loop sv False rest (if r = Inr True then n + 1 else n) s1"
  using assms by (auto simp: declined_def extract_nonempty split: option.splits sum.splits)

lemma wont_fix_loop_preview:
  "wont_fix_loop sv True items n s = (n + length (filter declined items), s)"
proof (induction items arbitrary: n)
  case Nil
  show ?case by simp
next
  case (Cons gi items)
  show ?case
  proof (cases "declined gi")
    case True
    show ?thesis
      by (simp add: wont_fix_loop_declined_preview [OF True] Cons.IH True del: wont_fix_loop.simps)
  next
    case False
    show ?thesis
      by (simp add: wont_fix_loop_not_declined [OF False] Cons.IH False del: wont_fix_loop.simps)
  qed
qed

lemma wont_fix_loop_exec:
  "\<exists>m s'. wont_fix_loop sv False items n s = (m, s')
      \<and> calls s' = calls s @ map wont_fix_request (filter declined items)
      \<and> n \<le> m \<and> m \<le> n + length (filter declined items)"
proof (induction items arbitrary: n s)
  case Nil
  show ?case by simp
next
  case (Cons gi items)
  show ?case
  proof (cases "declined gi")
    case False
    from Cons.IH [of n s] show ?thesis
      by (simp add: wont_fix_loop_not_declined [OF False] False del: wont_fix_loop.simps)
  next
    case True
    obtain r s1 where
      c: "resolve_issue_as_wont_fix sv (the (extract_sonar_issue_key (body gi))) s = (r, s1)"
      by (cases "resolve_issue_as_wont_fix sv (the (extract_sonar_issue_key (body gi))) s")
    let ?n1 = "if r = Inr True then n + 1 else n"
    from Cons.IH [of ?n1 s1] obtain m s' where
      h: "wont_fix_loop sv False items ?n1 s1 = (m, s')"
         "calls s' = calls s1 @ map wont_fix_request (filter declined items)"
         "?n1 \<le> m" "m \<le> ?n1 + length (filter declined items)"
      by blast
    have "wont_fix_loop sv False (gi # items) n s = (m, s')"
      using wont_fix_loop_declined_exec [OF True c] h(1) by simp
    moreover have "calls s' = calls s @ map wont_fix_request (filter declined (gi # items))"
      using h(2) resolve_issue_as_wont_fix_calls [OF c] True by (simp add: wont_fix_request_def)
    moreover have "n \<le> m \<and> m \<le> n + length (filter declined (gi # items))"
      using h(3,4) True by (simp split: if_splits)
    ultimately show ?thesis by blast
  qed
qed

lemma wont_fix_loop_none:
  "filter declined items = [] \<Longrightarrow> wont_fix_loop sv d items n s = (n, s)"
proof (induction items)
  case Nil
  show ?case by simp
next
  case (Cons gi items)
  from Cons.prems have nd: "\<not> declined gi" and rest: "filter declined items = []"
    by (simp_all split: if_splits)
  show ?case
    by (simp add: wont_fix_loop_not_declined [OF nd] Cons.IH [OF rest] del: wont_fix_loop.simps)
qed

text \<open>
  C4, as the code has it. In a reverse sync whose fetch returns: in execution mode the
  calls issued after the fetch are exactly one mark-won't-fix request per declined item
  (closed, reason exactly \<open>not_planned\<close>, key extractable), in list order and with the
  extracted key, and none for any other item (open, closed with another reason or with
  none, or without a key in its body); in preview mode no call is issued after the
  fetch and the declined items are counted instead. The loop never raises.
\<close>

theorem wont_fix_requests_for_declined_items:
  assumes fetch: "get_issues_with_label sv (github_repo config) ''sonarcloud'' s
                    = (Inr github_issues, s1)"
  shows "\<exists>m s2.
           sync_github_to_sonar sv config dry_run s = (Inr [(''marked_wont_fix'', m)], s2)
           \<and> calls s2 = calls s1
               @ (if dry_run then [] else map wont_fix_request (filter declined github_issues))
           \<and> (if dry_run then m = length (filter declined github_issues)
              else m \<le> length (filter declined github_issues))"
proof (cases dry_run)
  case True
  then have d: "dry_run = True" by simp
  show ?thesis
    using fetch unfolding d by (simp add: sync_github_to_sonar_def wont_fix_loop_preview)
next
  case False
  then have d: "dry_run = False" by simp
  from wont_fix_loop_exec [of sv github_issues 0 s1] obtain m s2 where
    h: "wont_fix_loop sv False github_issues 0 s1 = (m, s2)"
       "calls s2 = calls s1 @ map wont_fix_request (filter declined github_issues)"
       "m \<le> 0 + length (filter declined github_issues)"
    by blast
  show ?thesis
    using fetch h unfolding d by (simp add: sync_github_to_sonar_def)
qed

theorem wont_fix_requests_for_declined_items_witness:
  "filter declined [linked_item, stale_item, declined_item, unmarked_item] = [declined_item]
   \<and> sync_github_to_sonar (mock_collaborators True True [example_finding]
          [linked_item, stale_item, declined_item, unmarked_item] True) example_config False start
       = (Inr [(''marked_wont_fix'', 1)],
          \<lparr>world = (),
           calls = [GitHubGetIssuesWithLabel ''o/r'' ''sonarcloud'',
                    SonarResolveWontFix ''sonar-3'']\<rparr>)"
proof -
  let ?items = "[linked_item, stale_item, declined_item, unmarked_item]"
  let ?sv = "mock_collaborators True True [example_finding] ?items True"
  let ?s1 = "\<lparr>world = (), calls = [GitHubGetIssuesWithLabel ''o/r'' ''sonarcloud'']\<rparr>"
  have cfg: "github_repo example_config = ''o/r''" by (simp add: example_config_def)
  have f: "filter declined ?items = [declined_item]"
    by code_simp
  have u: "wont_fix_request declined_item = SonarResolveWontFix ''sonar-3''"
    by code_simp
  have h1: "get_issues_with_label ?sv (github_repo example_config) ''sonarcloud'' start
              = (Inr ?items, ?s1)"
    by (simp add: mock_get_issues_with_label cfg start_def)
  from wont_fix_requests_for_declined_items [OF h1, of False]
  obtain m s2 where
    r: "sync_github_to_sonar ?sv example_config False start = (Inr [(''marked_wont_fix'', m)], s2)"
       "calls s2 = calls ?s1 @ map wont_fix_request (filter declined ?items)"
    by auto
  have m: "fst (sync_github_to_sonar ?sv example_config False start)
             = Inr [(''marked_wont_fix'', 1)]"
    by code_simp
  have w: "world s2 = ()" by simp
  from r m have "m = 1" by simp
  moreover from r(2) [unfolded f] have "calls s2 = [GitHubGetIssuesWithLabel ''o/r'' ''sonarcloud'',
                    SonarResolveWontFix ''sonar-3'']"
    by (simp add: u)
  ultimately show ?thesis using r(1) f w by (cases s2) simp
qed

text \<open>
  C4, as the claim states it, fails in preview mode: an item closed as \<open>not_planned\<close>
  whose body yields the key \<open>sonar-3\<close> is counted, and the pass issues its fetch and no
  mark-won't-fix request.
\<close>

theorem preview_issues_no_wont_fix_request:
  "state declined_item = ''closed''
   \<and> state_reason declined_item = Some ''not_planned''
   \<and> extract_sonar_issue_key (body declined_item) = Some ''sonar-3''
   \<and> sync_github_to_sonar (mock_collaborators True True [] [declined_item] True)
        example_config True start
       = (Inr [(''marked_wont_fix'', 1)],
          \<lparr>world = (), calls = [GitHubGetIssuesWithLabel ''o/r'' ''sonarcloud'']\<rparr>)"
  by code_simp

section \<open>Preview mode\<close>

lemma lookup_mutating:
  "issue_exists_with_sonar_link sv repo u s = (r, s') \<Longrightarrow>
   filter mutating (calls s') = filter mutating (calls s)"
  by (auto simp: issue_exists_with_sonar_link_def get_issues_with_label_def
           split: prod.splits sum.splits dest!: invoke_mutating)

lemma create_loop_preview_mutating:
  "create_loop sv config True fs acc s = (r, s') \<Longrightarrow>
   filter mutating (calls s') = filter mutating (calls s)"
proof (induction fs arbitrary: acc s)
  case Nil
  then show ?case by (cases acc) simp
next
  case (Cons f fs)
  obtain cr sk where acc: "acc = (cr, sk)" by (cases acc)
  obtain x s1 where
    look: "issue_exists_with_sonar_link sv (github_repo config) (url f) s = (x, s1)"
    by (cases "issue_exists_with_sonar_link sv (github_repo config) (url f) s")
  note m = lookup_mutating [OF look]
  show ?case
  proof (cases x)
    case (Inl e)
    with Cons.prems look m show ?thesis by (simp add: acc)
  next
    case (Inr found)
    with Cons.prems look have "\<exists>acc'. create_loop sv config True fs acc' s1 = (r, s')"
      by (cases found) (auto simp: acc)
    then obtain acc' where "create_loop sv config True fs acc' s1 = (r, s')" by blast
    from Cons.IH [OF this] m show ?thesis by simp
  qed
qed

lemma sync_sonar_to_github_preview_mutating:
  "filter mutating (calls (snd (sync_sonar_to_github sv config True s)))
     = filter mutating (calls s)"
proof -
  obtain r1 s1 where g: "get_issues sv (sonar_project_key config) (issue_types config) s = (r1, s1)"
    by (cases "get_issues sv (sonar_project_key config) (issue_types config) s")
  have m1: "filter mutating (calls s1) = filter mutating (calls s)"
    using g unfolding get_issues_def by (rule invoke_mutating) simp
  show ?thesis
  proof (cases r1)
    case (Inl e)
    with g m1 show ?thesis by (simp add: sync_sonar_to_github_def)
  next
    case (Inr sonar_issues)
    obtain r2 s2 where c: "create_loop sv config True sonar_issues (0, 0) s1 = (r2, s2)"
      by (cases "create_loop sv config True sonar_issues (0, 0) s1")
    note m2 = create_loop_preview_mutating [OF c]
    show ?thesis
    proof (cases r2)
      case (Inl e)
      with g Inr c m1 m2 show ?thesis by (simp add: sync_sonar_to_github_def)
    next
      case counts: (Inr p)
      obtain r3 s3 where
        h: "get_issues_with_label sv (github_repo config) ''sonarcloud'' s2 = (r3, s3)"
        by (cases "get_issues_with_label sv (github_repo config) ''sonarcloud'' s2")
      have m3: "filter mutating (calls s3) = filter mutating (calls s2)"
        using h unfolding get_issues_with_label_def by (rule invoke_mutating) simp
      show ?thesis
        using g Inr c counts h m1 m2 m3
        by (cases r3; cases p) (simp_all add: sync_sonar_to_github_def close_loop_preview)
    qed
  qed
qed

lemma sync_github_to_sonar_preview_mutating:
  "filter mutating (calls (snd (sync_github_to_sonar sv config True s)))
     = filter mutating (calls s)"
proof -
  obtain r1 s1 where
    h: "get_issues_with_label sv (github_repo config) ''sonarcloud'' s = (r1, s1)"
    by (cases "get_issues_with_label sv (github_repo config) ''sonarcloud'' s")
  have m1: "filter mutating (calls s1) = filter mutating (calls s)"
    using h unfolding get_issues_with_label_def by (rule invoke_mutating) simp
  show ?thesis
    using h m1 by (cases r1) (simp_all add: sync_github_to_sonar_def wont_fix_loop_preview)
qed

lemma validate_credentials_mutating:
  "filter mutating (calls (snd (validate_credentials sv config s))) = filter mutating (calls s)"
proof -
  obtain r1 s1 where a: "sonar_client_test_connection sv s = (r1, s1)"
    by (cases "sonar_client_test_connection sv s")
  obtain r2 s2 where b: "github_client_test_connection sv (github_repo config) s1 = (r2, s2)"
    by (cases "github_client_test_connection sv (github_repo config) s1")
  have m1: "filter mutating (calls s1) = filter mutating (calls s)"
    using a unfolding sonar_client_test_connection_def by (rule invoke_mutating) simp
  have m2: "filter mutating (calls s2) = filter mutating (calls s1)"
    using b unfolding github_client_test_connection_def by (rule invoke_mutating) simp
  show ?thesis
    using a b m1 m2 by (cases r1; cases r2) (simp_all add: validate_credentials_def)
qed

lemma full_sync_preview_mutating:
  "filter mutating (calls (snd (full_sync sv config True s))) = filter mutating (calls s)"
proof -
  obtain r1 s1 where v: "validate_credentials sv config s = (r1, s1)"
    by (cases "validate_credentials sv config s")
  obtain r2 s2 where f: "sync_sonar_to_github sv config True s1 = (r2, s2)"
    by (cases "sync_sonar_to_github sv config True s1")
  obtain r3 s3 where g: "sync_github_to_sonar sv config True s2 = (r3, s3)"
    by (cases "sync_github_to_sonar sv config True s2")
  have m1: "filter mutating (calls s1) = filter mutating (calls s)"
    using validate_credentials_mutating [of sv config s] v by simp
  have m2: "filter mutating (calls s2) = filter mutating (calls s1)"
    using sync_sonar_to_github_preview_mutating [of sv config s1] f by simp
  have m3: "filter mutating (calls s3) = filter mutating (calls s2)"
    using sync_github_to_sonar_preview_mutating [of sv config s2] g by simp
  show ?thesis
    using v f g m1 m2 m3 by (cases r1; cases r2; cases r3) (simp_all add: full_sync_def)
qed

lemma lookup_fixed:
  assumes "\<forall>w. fst (github_get_issues_with_label sv repo ''sonarcloud'' w) = Inr items"
  shows "\<exists>s1. issue_exists_with_sonar_link sv repo u s
                = (Inr (find (\<lambda>issue. sublist u (body issue)) items), s1)"
proof -
  obtain r s1 where g: "get_issues_with_label sv repo ''sonarcloud'' s = (r, s1)"
    by (cases "get_issues_with_label sv repo ''sonarcloud'' s")
  have "fst (get_issues_with_label sv repo ''sonarcloud'' s) = Inr items"
    using assms by (simp add: get_issues_with_label_def invoke_fst)
  with g have "r = Inr items" by simp
  with g show ?thesis by (simp add: issue_exists_with_sonar_link_def)
qed

lemma create_fixed:
  assumes "\<forall>t b l w. \<exists>gi. fst (github_create_issue sv repo t b l w) = Inr gi"
  shows "\<exists>gi s2. create_issue sv repo t b l s = (Inr gi, s2)"
proof -
  obtain r s2 where c: "create_issue sv repo t b l s = (r, s2)"
    by (cases "create_issue sv repo t b l s")
  have "\<exists>gi. fst (create_issue sv repo t b l s) = Inr gi"
    using assms by (simp add: create_issue_def invoke_fst)
  with c show ?thesis by auto
qed

lemma close_fixed:
  assumes "\<forall>u d w. fst (github_session_patch sv u d w) = Inr ()"
  shows "\<exists>s1. close_issue sv repo n s = (Inr True, s1)"
proof -
  obtain r s1 where p: "session_patch sv (issue_url repo n) [(''state'', ''closed'')] s = (r, s1)"
    by (cases "session_patch sv (issue_url repo n) [(''state'', ''closed'')] s")
  have "fst (session_patch sv (issue_url repo n) [(''state'', ''closed'')] s) = Inr ()"
    using assms by (simp add: session_patch_def invoke_fst)
  with p have "r = Inr ()" by simp
  with p show ?thesis by (simp add: close_issue_def)
qed

lemma resolve_fixed:
  assumes "\<forall>k w. fst (sonar_resolve_issue_as_wont_fix sv k w) = Inr True"
  shows "\<exists>s1. resolve_issue_as_wont_fix sv k s = (Inr True, s1)"
proof -
  obtain r s1 where p: "resolve_issue_as_wont_fix sv k s = (r, s1)"
    by (cases "resolve_issue_as_wont_fix sv k s")
  have "fst (resolve_issue_as_wont_fix sv k s) = Inr True"
    using assms by (simp add: resolve_issue_as_wont_fix_def invoke_fst)
  with p show ?thesis by simp
qed

lemma create_loop_fixed:
  assumes g: "\<forall>w. fst (github_get_issues_with_label sv (github_repo config) ''sonarcloud'' w)
                  = Inr items"
    and c: "\<forall>t b l w. \<exists>gi. fst (github_create_issue sv (github_repo config) t b l w) = Inr gi"
  shows "fst (create_loop sv config d fs (cr, sk) s)
           = Inr (cr + length (filter (\<lambda>f. \<not> list_ex (\<lambda>gi. sublist (url f) (body gi)) items) fs),
                  sk + length (filter (\<lambda>f. list_ex (\<lambda>gi. sublist (url f) (body gi)) items) fs))"
proof (induction fs arbitrary: cr sk s)
  case Nil
  show ?case by simp
next
  case (Cons f fs)
  let ?P = "\<lambda>issue. sublist (url f) (body issue)"
  from lookup_fixed [OF g] obtain s1 where
    look: "issue_exists_with_sonar_link sv (github_repo config) (url f) s
             = (Inr (find ?P items), s1)"
    by blast
  show ?case
  proof (cases "find ?P items")
    case (Some gi)
    then have l: "list_ex ?P items"
      by (metis find_None_iff list_ex_iff option.distinct(1))
    show ?thesis using look Some l by (simp add: Cons.IH)
  next
    case None
    then have l: "\<not> list_ex ?P items"
      by (simp add: find_None_iff list_ex_iff)
    show ?thesis
    proof (cases d)
      case True
      then have dd: "d = True" by simp
      show ?thesis unfolding dd using look None l by (simp add: Cons.IH [unfolded dd])
    next
      case False
      then have dd: "d = False" by simp
      from create_fixed [OF c] obtain gi s2 where
        "create_issue sv (github_repo config) (message f) (create_github_issue_body f)
           (''sonarcloud'' # tags f) s1 = (Inr gi, s2)"
        by blast
      then show ?thesis unfolding dd using look None l by (simp add: Cons.IH [unfolded dd])
    qed
  qed
qed

lemma close_loop_fixed:
  assumes p: "\<forall>u d w. fst (github_session_patch sv u d w) = Inr ()"
  shows "fst (close_loop sv config False sis items n s) = n + length (filter (stale sis) items)"
proof (induction items arbitrary: n s)
  case Nil
  show ?case by simp
next
  case (Cons gi items)
  show ?case
  proof (cases "stale sis gi")
    case False
    show ?thesis
      by (simp add: close_loop_not_stale [OF False] False Cons.IH del: close_loop.simps)
  next
    case True
    from close_fixed [OF p] obtain s1 where
      c: "close_issue sv (github_repo config) (number gi) s = (Inr True, s1)"
      by blast
    show ?thesis
      by (simp add: close_loop_stale_exec [OF True c] True Cons.IH del: close_loop.simps)
  qed
qed

lemma wont_fix_loop_fixed:
  assumes p: "\<forall>k w. fst (sonar_resolve_issue_as_wont_fix sv k w) = Inr True"
  shows "fst (wont_fix_loop sv False items n s) = n + length (filter declined items)"
proof (induction items arbitrary: n s)
  case Nil
  show ?case by simp
next
  case (Cons gi items)
  show ?case
  proof (cases "declined gi")
    case False
    show ?thesis
      by (simp add: wont_fix_loop_not_declined [OF False] False Cons.IH
            del: wont_fix_loop.simps)
  next
    case True
    from resolve_fixed [OF p] obtain s1 where
      c: "resolve_issue_as_wont_fix sv (the (extract_sonar_issue_key (body gi))) s
            = (Inr True, s1)"
      by blast
    show ?thesis
      by (simp add: wont_fix_loop_declined_exec [OF True c] True Cons.IH
            del: wont_fix_loop.simps)
  qed
qed

lemma sync_sonar_to_github_fixed:
  assumes f: "\<forall>w. fst (sonar_get_issues sv (sonar_project_key config) (issue_types config) w)
                  = Inr findings"
    and g: "\<forall>w. fst (github_get_issues_with_label sv (github_repo config) ''sonarcloud'' w)
                  = Inr items"
    and c: "\<forall>t b l w. \<exists>gi. fst (github_create_issue sv (github_repo config) t b l w) = Inr gi"
    and p: "\<forall>u d w. fst (github_session_patch sv u d w) = Inr ()"
  shows "fst (sync_sonar_to_github sv config d s)
           = Inr [(''created'',
                   length (filter (\<lambda>f. \<not> list_ex (\<lambda>gi. sublist (url f) (body gi)) items)
                             findings)),
                  (''skipped'',
                   length (filter (\<lambda>f. list_ex (\<lambda>gi. sublist (url f) (body gi)) items)
                             findings)),
                  (''closed'', length (filter (stale findings) items))]"
proof -
  obtain r1 s1 where a: "get_issues sv (sonar_project_key config) (issue_types config) s = (r1, s1)"
    by (cases "get_issues sv (sonar_project_key config) (issue_types config) s")
  have "fst (get_issues sv (sonar_project_key config) (issue_types config) s) = Inr findings"
    using f by (simp add: get_issues_def invoke_fst)
  with a have r1: "r1 = Inr findings" by simp
  obtain r2 s2 where b: "create_loop sv config d findings (0, 0) s1 = (r2, s2)"
    by (cases "create_loop sv config d findings (0, 0) s1")
  from create_loop_fixed [OF g c, of d findings 0 0 s1] b
  have r2: "r2 = Inr (length (filter (\<lambda>f. \<not> list_ex (\<lambda>gi. sublist (url f) (body gi)) items)
                                 findings),
                      length (filter (\<lambda>f. list_ex (\<lambda>gi. sublist (url f) (body gi)) items)
                                 findings))"
    by simp
  obtain r3 s3 where e: "get_issues_with_label sv (github_repo config) ''sonarcloud'' s2 = (r3, s3)"
    by (cases "get_issues_with_label sv (github_repo config) ''sonarcloud'' s2")
  have "fst (get_issues_with_label sv (github_repo config) ''sonarcloud'' s2) = Inr items"
    using g by (simp add: get_issues_with_label_def invoke_fst)
  with e have r3: "r3 = Inr items" by simp
  have cl: "fst (close_loop sv config d findings items 0 s3) = length (filter (stale findings) items)"
  proof (cases d)
    case True
    then have dd: "d = True" by simp
    show ?thesis unfolding dd by (simp add: close_loop_preview)
  next
    case False
    then have dd: "d = False" by simp
    show ?thesis unfolding dd by (simp add: close_loop_fixed [OF p])
  qed
  show ?thesis
    using a b e cl unfolding r1 r2 r3
    by (auto simp: sync_sonar_to_github_def split: prod.splits)
qed

lemma sync_github_to_sonar_fixed:
  assumes g: "\<forall>w. fst (github_get_issues_with_label sv (github_repo config) ''sonarcloud'' w)
                  = Inr items"
    and r: "\<forall>k w. fst (sonar_resolve_issue_as_wont_fix sv k w) = Inr True"
  shows "fst (sync_github_to_sonar sv config d s)
           = Inr [(''marked_wont_fix'', length (filter declined items))]"
proof -
  obtain r1 s1 where e: "get_issues_with_label sv (github_repo config) ''sonarcloud'' s = (r1, s1)"
    by (cases "get_issues_with_label sv (github_repo config) ''sonarcloud'' s")
  have "fst (get_issues_with_label sv (github_repo config) ''sonarcloud'' s) = Inr items"
    using g by (simp add: get_issues_with_label_def invoke_fst)
  with e have r1: "r1 = Inr items" by simp
  have m: "fst (wont_fix_loop sv d items 0 s1) = length (filter declined items)"
  proof (cases d)
    case True
    then have dd: "d = True" by simp
    show ?thesis unfolding dd by (simp add: wont_fix_loop_preview)
  next
    case False
    then have dd: "d = False" by simp
    show ?thesis unfolding dd by (simp add: wont_fix_loop_fixed [OF r])
  qed
  show ?thesis
    using e m unfolding r1 by (auto simp: sync_github_to_sonar_def split: prod.splits)
qed

lemma full_sync_fixed:
  assumes f: "\<forall>w. fst (sonar_get_issues sv (sonar_project_key config) (issue_types config) w)
                  = Inr findings"
    and g: "\<forall>w. fst (github_get_issues_with_label sv (github_repo config) ''sonarcloud'' w)
                  = Inr items"
    and c: "\<forall>t b l w. \<exists>gi. fst (github_create_issue sv (github_repo config) t b l w) = Inr gi"
    and p: "\<forall>u d w. fst (github_session_patch sv u d w) = Inr ()"
    and r: "\<forall>k w. fst (sonar_resolve_issue_as_wont_fix sv k w) = Inr True"
  shows "fst (full_sync sv config d s)
           = (case fst (validate_credentials sv config s) of
                Inl e \<Rightarrow> Inl e
              | Inr ok \<Rightarrow>
                  Inr [(''created'',
                        length (filter (\<lambda>f. \<not> list_ex (\<lambda>gi. sublist (url f) (body gi)) items)
                                  findings)),
                       (''skipped'',
                        length (filter (\<lambda>f. list_ex (\<lambda>gi. sublist (url f) (body gi)) items)
                                  findings)),
                       (''closed'', length (filter (stale findings) items)),
                       (''marked_wont_fix'', length (filter declined items))])"
proof -
  obtain r1 s1 where v: "validate_credentials sv config s = (r1, s1)"
    by (cases "validate_credentials sv config s")
  obtain r2 s2 where a: "sync_sonar_to_github sv config d s1 = (r2, s2)"
    by (cases "sync_sonar_to_github sv config d s1")
  obtain r3 s3 where b: "sync_github_to_sonar sv config d s2 = (r3, s3)"
    by (cases "sync_github_to_sonar sv config d s2")
  from sync_sonar_to_github_fixed [OF f g c p, of d s1] a
  have r2: "r2 = Inr [(''created'',
                   length (filter (\<lambda>f. \<not> list_ex (\<lambda>gi. sublist (url f) (body gi)) items)
                             findings)),
                  (''skipped'',
                   length (filter (\<lambda>f. list_ex (\<lambda>gi. sublist (url f) (body gi)) items)
                             findings)),
                  (''closed'', length (filter (stale findings) items))]"
    by simp
  from sync_github_to_sonar_fixed [OF g r, of d s2] b
  have r3: "r3 = Inr [(''marked_wont_fix'', length (filter declined items))]"
    by simp
  show ?thesis
    using v a b unfolding r2 r3
    by (cases r1) (simp_all add: full_sync_def dict_merge_results)
qed

text \<open>
  C5, as the code has it. A full pass in preview mode issues no create, close or
  mark-won't-fix call, whatever the collaborators answer. Its counters equal those of the
  pass in execution mode when the collaborators return the same list of findings and the
  same list of items to every fetch and every create, close and mark-won't-fix call of
  the execution run succeeds: preview counts each decision as if its call had succeeded.
\<close>

theorem preview_is_pure:
  "filter mutating (calls (snd (full_sync sv config True s))) = filter mutating (calls s)
   \<and> ((\<forall>w. fst (sonar_get_issues sv (sonar_project_key config) (issue_types config) w)
              = Inr findings)
      \<and> (\<forall>w. fst (github_get_issues_with_label sv (github_repo config) ''sonarcloud'' w)
              = Inr items)
      \<and> (\<forall>t b l w. \<exists>gi. fst (github_create_issue sv (github_repo config) t b l w) = Inr gi)
      \<and> (\<forall>u d w. fst (github_session_patch sv u d w) = Inr ())
      \<and> (\<forall>k w. fst (sonar_resolve_issue_as_wont_fix sv k w) = Inr True)
      \<longrightarrow> fst (full_sync sv config True s) = fst (full_sync sv config False s))"
proof (intro conjI impI)
  show "filter mutating (calls (snd (full_sync sv config True s))) = filter mutating (calls s)"
    by (rule full_sync_preview_mutating)
next
  assume h: "(\<forall>w. fst (sonar_get_issues sv (sonar_project_key config) (issue_types config) w)
              = Inr findings)
      \<and> (\<forall>w. fst (github_get_issues_with_label sv (github_repo config) ''sonarcloud'' w)
              = Inr items)
      \<and> (\<forall>t b l w. \<exists>gi. fst (github_create_issue sv (github_repo config) t b l w) = Inr gi)
      \<and> (\<forall>u d w. fst (github_session_patch sv u d w) = Inr ())
      \<and> (\<forall>k w. fst (sonar_resolve_issue_as_wont_fix sv k w) = Inr True)"
  then have f: "\<forall>w. fst (sonar_get_issues sv (sonar_project_key config) (issue_types config) w)
              = Inr findings"
    and g: "\<forall>w. fst (github_get_issues_with_label sv (github_repo config) ''sonarcloud'' w)
              = Inr items"
    and c: "\<forall>t b l w. \<exists>gi. fst (github_create_issue sv (github_repo config) t b l w) = Inr gi"
    and p: "\<forall>u d w. fst (github_session_patch sv u d w) = Inr ()"
    and r: "\<forall>k w. fst (sonar_resolve_issue_as_wont_fix sv k w) = Inr True"
    by blast+
  show "fst (full_sync sv config True s) = fst (full_sync sv config False s)"
    by (simp only: full_sync_fixed [OF f g c p r])
qed

theorem preview_is_pure_witness:
  "filter mutating (calls (snd (full_sync (mock_collaborators True True [example_finding]
       [linked_item, stale_item, declined_item, unmarked_item] True) example_config True start)))
     = []
   \<and> fst (full_sync (mock_collaborators True True [example_finding]
            [linked_item, stale_item, declined_item, unmarked_item] True) example_config True start)
     = fst (full_sync (mock_collaborators True True [example_finding]
            [linked_item, stale_item, declined_item, unmarked_item] True) example_config False start)
   \<and> fst (full_sync (mock_collaborators True True [example_finding]
            [linked_item, stale_item, declined_item, unmarked_item] True) example_config False start)
     = Inr [(''created'', 0), (''skipped'', 1), (''closed'', 1), (''marked_wont_fix'', 1)]"
proof -
  let ?items = "[linked_item, stale_item, declined_item, unmarked_item]"
  let ?sv = "mock_collaborators True True [example_finding] ?items True"
  have h: "(\<forall>w. fst (sonar_get_issues ?sv (sonar_project_key example_config)
                     (issue_types example_config) w) = Inr [example_finding])
      \<and> (\<forall>w. fst (github_get_issues_with_label ?sv (github_repo example_config) ''sonarcloud'' w)
              = Inr ?items)
      \<and> (\<forall>t b l w. \<exists>gi. fst (github_create_issue ?sv (github_repo example_config) t b l w)
              = Inr gi)
      \<and> (\<forall>u d w. fst (github_session_patch ?sv u d w) = Inr ())
      \<and> (\<forall>k w. fst (sonar_resolve_issue_as_wont_fix ?sv k w) = Inr True)"
    by (simp add: mock_collaborators_def)
  have v: "fst (full_sync ?sv example_config False start)
     = Inr [(''created'', 0), (''skipped'', 1), (''closed'', 1), (''marked_wont_fix'', 1)]"
    by code_simp
  from preview_is_pure [of ?sv example_config start "[example_finding]" ?items] h v
  show ?thesis by (simp add: start_def)
qed

text \<open>
  C5, as the claim states it, fails: with one finding, no item and a \<open>create_issue\<close> that
  raises, the preview pass reports one created issue and the execution pass none.
\<close>

theorem failed_create_breaks_preview_equality:
  "fst (full_sync (mock_collaborators True True [example_finding] [] False)
          example_config True start)
     = Inr [(''created'', 1), (''skipped'', 0), (''closed'', 0), (''marked_wont_fix'', 0)]
   \<and> fst (full_sync (mock_collaborators True True [example_finding] [] False)
            example_config False start)
     = Inr [(''created'', 0), (''skipped'', 0), (''closed'', 0), (''marked_wont_fix'', 0)]"
  by code_simp

section \<open>Properties of the world kept by a pass\<close>

lemma lookup_kept:
  assumes "kept_by sv repo I" and "I (world s)"
  shows "I (world (snd (issue_exists_with_sonar_link sv repo u s)))"
proof -
  have "I (world (snd (get_issues_with_label sv repo ''sonarcloud'' s)))"
    using assms by (simp add: get_issues_with_label_def invoke_world kept_by_def)
  then show ?thesis
    by (auto simp: issue_exists_with_sonar_link_def split: prod.splits sum.splits)
qed

lemma create_issue_kept:
  assumes "kept_by sv repo I" and "I (world s)"
  shows "I (world (snd (create_issue sv repo t b l s)))"
  using assms by (simp add: create_issue_def invoke_world kept_by_def)

lemma close_issue_kept:
  assumes "kept_by sv repo I" and "I (world s)"
  shows "I (world (snd (close_issue sv repo n s)))"
proof -
  have "I (world (snd (session_patch sv (issue_url repo n) [(''state'', ''closed'')] s)))"
    using assms by (simp add: session_patch_def invoke_world kept_by_def)
  then show ?thesis
    by (auto simp: close_issue_def split: prod.splits sum.splits)
qed

lemma resolve_kept:
  assumes "kept_by sv repo I" and "I (world s)"
  shows "I (world (snd (resolve_issue_as_wont_fix sv k s)))"
  using assms by (simp add: resolve_issue_as_wont_fix_def invoke_world kept_by_def)

lemma create_loop_kept:
  assumes k: "kept_by sv (github_repo config) I"
  shows "I (world s) \<Longrightarrow> I (world (snd (create_loop sv config d fs acc s)))"
proof (induction fs arbitrary: acc s d)
  case Nil
  then show ?case by (cases acc) simp
next
  case (Cons f fs)
  obtain cr sk where acc: "acc = (cr, sk)" by (cases acc)
  obtain x s1 where
    look: "issue_exists_with_sonar_link sv (github_repo config) (url f) s = (x, s1)"
    by (cases "issue_exists_with_sonar_link sv (github_repo config) (url f) s")
  have i1: "I (world s1)"
    using lookup_kept [OF k Cons.prems, of "url f"] look by simp
  obtain y s2 where
    cr: "create_issue sv (github_repo config) (message f) (create_github_issue_body f)
           (''sonarcloud'' # tags f) s1 = (y, s2)"
    by (cases "create_issue sv (github_repo config) (message f) (create_github_issue_body f)
           (''sonarcloud'' # tags f) s1")
  have i2: "I (world s2)"
    using create_issue_kept [OF k i1, of "message f" "create_github_issue_body f"
        "''sonarcloud'' # tags f"] cr by simp
  show ?case
  proof (cases x)
    case (Inl e)
    with look i1 show ?thesis by (simp add: acc)
  next
    case (Inr found)
    show ?thesis
    proof (cases found)
      case (Some gi)
      with Inr look Cons.IH [OF i1] show ?thesis by (simp add: acc)
    next
      case None
      show ?thesis
        using None Inr look cr Cons.IH [OF i1] Cons.IH [OF i2]
        by (cases y) (simp_all add: acc)
    qed
  qed
qed

lemma close_loop_kept:
  assumes k: "kept_by sv (github_repo config) I"
  shows "I (world s) \<Longrightarrow> I (world (snd (close_loop sv config d sis items n s)))"
proof (induction items arbitrary: n s d)
  case Nil
  then show ?case by simp
next
  case (Cons gi items)
  obtain y s1 where c: "close_issue sv (github_repo config) (number gi) s = (y, s1)"
    by (cases "close_issue sv (github_repo config) (number gi) s")
  have i1: "I (world s1)"
    using close_issue_kept [OF k Cons.prems, of "number gi"] c by simp
  show ?case
    using c Cons.IH [OF Cons.prems] Cons.IH [OF i1]
    by (cases y) (simp_all split: option.splits)
qed

lemma wont_fix_loop_kept:
  assumes k: "kept_by sv repo I"
  shows "I (world s) \<Longrightarrow> I (world (snd (wont_fix_loop sv d items n s)))"
proof (induction items arbitrary: n s d)
  case Nil
  then show ?case by simp
next
  case (Cons gi items)
  show ?case
  proof (cases "extract_sonar_issue_key (body gi)")
    case None
    with Cons.IH [OF Cons.prems] show ?thesis by simp
  next
    case (Some key')
    obtain y s1 where c: "resolve_issue_as_wont_fix sv key' s = (y, s1)"
      by (cases "resolve_issue_as_wont_fix sv key' s")
    have i1: "I (world s1)"
      using resolve_kept [OF k Cons.prems, of key'] c by simp
    show ?thesis
      using Some c Cons.IH [OF Cons.prems] Cons.IH [OF i1]
      by (cases y) simp_all
  qed
qed

lemma sync_sonar_to_github_kept:
  assumes k: "kept_by sv (github_repo config) I" and i: "I (world s)"
  shows "I (world (snd (sync_sonar_to_github sv config d s)))"
proof -
  obtain r1 s1 where a: "get_issues sv (sonar_project_key config) (issue_types config) s = (r1, s1)"
    by (cases "get_issues sv (sonar_project_key config) (issue_types config) s")
  have i1: "I (world s1)"
    using k i a invoke_world [of "SonarGetIssues (sonar_project_key config) (issue_types config)"
        "sonar_get_issues sv (sonar_project_key config) (issue_types config)" s]
    by (simp add: get_issues_def kept_by_def)
  show ?thesis
  proof (cases r1)
    case (Inl e)
    with a i1 show ?thesis by (simp add: sync_sonar_to_github_def)
  next
    case (Inr sonar_issues)
    obtain r2 s2 where b: "create_loop sv config d sonar_issues (0, 0) s1 = (r2, s2)"
      by (cases "create_loop sv config d sonar_issues (0, 0) s1")
    have i2: "I (world s2)"
      using create_loop_kept [OF k i1, of d sonar_issues "(0, 0)"] b by simp
    obtain r3 s3 where
      c: "get_issues_with_label sv (github_repo config) ''sonarcloud'' s2 = (r3, s3)"
      by (cases "get_issues_with_label sv (github_repo config) ''sonarcloud'' s2")
    have i3: "I (world s3)"
      using k i2 c invoke_world [of "GitHubGetIssuesWithLabel (github_repo config) ''sonarcloud''"
        "github_get_issues_with_label sv (github_repo config) ''sonarcloud''" s2]
      by (simp add: get_issues_with_label_def kept_by_def)
    show ?thesis
    proof (cases r2)
      case (Inl e)
      with a Inr b i2 show ?thesis by (simp add: sync_sonar_to_github_def)
    next
      case counts: (Inr p)
      show ?thesis
      proof (cases r3)
        case (Inl e)
        with a Inr b counts c i3 show ?thesis
          by (cases p) (simp add: sync_sonar_to_github_def)
      next
        case items: (Inr github_issues)
        from close_loop_kept [OF k i3, of d sonar_issues github_issues 0]
        show ?thesis
          using a Inr b counts c items
          by (cases p) (auto simp: sync_sonar_to_github_def split: prod.splits)
      qed
    qed
  qed
qed

lemma sync_github_to_sonar_kept:
  assumes k: "kept_by sv (github_repo config) I" and i: "I (world s)"
  shows "I (world (snd (sync_github_to_sonar sv config d s)))"
proof -
  obtain r1 s1 where
    c: "get_issues_with_label sv (github_repo config) ''sonarcloud'' s = (r1, s1)"
    by (cases "get_issues_with_label sv (github_repo config) ''sonarcloud'' s")
  have i1: "I (world s1)"
    using k i c invoke_world [of "GitHubGetIssuesWithLabel (github_repo config) ''sonarcloud''"
        "github_get_issues_with_label sv (github_repo config) ''sonarcloud''" s]
    by (simp add: get_issues_with_label_def kept_by_def)
  show ?thesis
  proof (cases r1)
    case (Inl e)
    with c i1 show ?thesis by (simp add: sync_github_to_sonar_def)
  next
    case (Inr github_issues)
    from wont_fix_loop_kept [OF k i1, of d github_issues 0]
    show ?thesis using c Inr by (auto simp: sync_github_to_sonar_def split: prod.splits)
  qed
qed

lemma validate_credentials_kept:
  assumes k: "kept_by sv (github_repo config) I" and i: "I (world s)"
  shows "I (world (snd (validate_credentials sv config s)))"
proof -
  obtain r1 s1 where a: "sonar_client_test_connection sv s = (r1, s1)"
    by (cases "sonar_client_test_connection sv s")
  have i1: "I (world s1)"
    using k i a invoke_world [of SonarTestConnection "sonar_test_connection sv" s]
    by (simp add: sonar_client_test_connection_def kept_by_def)
  obtain r2 s2 where b: "github_client_test_connection sv (github_repo config) s1 = (r2, s2)"
    by (cases "github_client_test_connection sv (github_repo config) s1")
  have i2: "I (world s2)"
    using k i1 b invoke_world [of "GitHubTestConnection (github_repo config)"
        "github_test_connection sv (github_repo config)" s1]
    by (simp add: github_client_test_connection_def kept_by_def)
  show ?thesis
    using a b i1 i2 by (cases r1; cases r2) (simp_all add: validate_credentials_def)
qed

lemma full_sync_kept:
  assumes k: "kept_by sv (github_repo config) I" and i: "I (world s)"
  shows "I (world (snd (full_sync sv config d s)))"
proof -
  obtain r1 s1 where v: "validate_credentials sv config s = (r1, s1)"
    by (cases "validate_credentials sv config s")
  obtain r2 s2 where f: "sync_sonar_to_github sv config d s1 = (r2, s2)"
    by (cases "sync_sonar_to_github sv config d s1")
  obtain r3 s3 where g: "sync_github_to_sonar sv config d s2 = (r3, s3)"
    by (cases "sync_github_to_sonar sv config d s2")
  have i1: "I (world s1)" using validate_credentials_kept [OF k i] v by simp
  have i2: "I (world s2)" using sync_sonar_to_github_kept [OF k i1, of d] f by simp
  have i3: "I (world s3)" using sync_github_to_sonar_kept [OF k i2, of d] g by simp
  show ?thesis
    using v f g i1 i2 i3 by (cases r1; cases r2; cases r3) (simp_all add: full_sync_def)
qed

section \<open>The close request and the closure reason\<close>

lemma store_keeps_no_not_planned:
  "kept_by (store_collaborators repo findings) repo' no_not_planned"
  by (auto simp: kept_by_def store_collaborators_def no_not_planned_def Let_def
        apply_patch_close list_all_iff)

lemma no_not_planned_declined:
  assumes "no_not_planned w" and "set items \<subseteq> set w"
  shows "filter declined items = []"
  using assms by (auto simp: no_not_planned_def declined_def list_all_iff filter_empty_conv)

lemma store_reverse_sync_clean:
  assumes "no_not_planned (world s)"
  shows "\<exists>s'. sync_github_to_sonar (store_collaborators repo findings) config d s
                 = (Inr [(''marked_wont_fix'', 0)], s')
              \<and> filter is_wont_fix (calls s') = filter is_wont_fix (calls s)"
proof -
  let ?items = "filter (\<lambda>gi. List.member (labels gi) ''sonarcloud'') (world s)"
  have "filter declined ?items = []"
    using assms by (rule no_not_planned_declined) simp
  then show ?thesis
    by (simp add: sync_github_to_sonar_def store_fetch wont_fix_loop_none)
qed

text \<open>
  C10, as the code has it. The close request is a PATCH whose JSON object is exactly
  \<open>{"state": "closed"}\<close>: it names no closure reason. On a tracker that changes only the
  fields a PATCH names, the patched item is closed and keeps the closure reason it had;
  when that was not \<open>not_planned\<close> the item is not declined, and the reverse-sync loop
  passes it over. For the storing tracker as a whole: from a world in which no item
  carries \<open>not_planned\<close>, no pass ever produces one, and the reverse sync that follows an
  execution-mode forward sync marks nothing and issues no mark-won't-fix request, whatever
  the forward sync closed.
\<close>

theorem close_request_keeps_reason:
  "calls (snd (close_issue sv repo n s))
     = calls s @ [GitHubPatch (issue_url repo n) [(''state'', ''closed'')]]
   \<and> map_of [(''state'', ''closed'')] ''state_reason'' = (None :: string option)
   \<and> state (apply_patch [(''state'', ''closed'')] gi) = ''closed''
   \<and> state_reason (apply_patch [(''state'', ''closed'')] gi) = state_reason gi
   \<and> (state_reason gi \<noteq> Some ''not_planned''
        \<longrightarrow> \<not> declined (apply_patch [(''state'', ''closed'')] gi)
            \<and> wont_fix_loop sv d (apply_patch [(''state'', ''closed'')] gi # rest) m s
                = wont_fix_loop sv d rest m s)
   \<and> (no_not_planned (world t)
        \<longrightarrow> no_not_planned
              (world (snd (full_sync (store_collaborators (github_repo config) findings)
                             config d t)))
            \<and> (\<exists>t'. sync_github_to_sonar (store_collaborators (github_repo config) findings)
                       config d
                       (snd (sync_sonar_to_github
                               (store_collaborators (github_repo config) findings) config False t))
                     = (Inr [(''marked_wont_fix'', 0)], t')
                   \<and> filter is_wont_fix (calls t')
                       = filter is_wont_fix
                           (calls (snd (sync_sonar_to_github
                               (store_collaborators (github_repo config) findings)
                               config False t)))))"
proof (intro conjI impI)
  obtain r s1 where c: "close_issue sv repo n s = (r, s1)"
    by (cases "close_issue sv repo n s")
  from close_issue_calls [OF c] c
  show "calls (snd (close_issue sv repo n s))
          = calls s @ [GitHubPatch (issue_url repo n) [(''state'', ''closed'')]]"
    by simp
next
  show "map_of [(''state'', ''closed'')] ''state_reason'' = (None :: string option)"
    by simp
next
  show "state (apply_patch [(''state'', ''closed'')] gi) = ''closed''"
    by (simp add: apply_patch_close)
next
  show "state_reason (apply_patch [(''state'', ''closed'')] gi) = state_reason gi"
    by (simp add: apply_patch_close)
next
  assume "state_reason gi \<noteq> Some ''not_planned''"
  then show nd: "\<not> declined (apply_patch [(''state'', ''closed'')] gi)"
    by (simp add: apply_patch_close declined_def)
  show "wont_fix_loop sv d (apply_patch [(''state'', ''closed'')] gi # rest) m s
          = wont_fix_loop sv d rest m s"
    using nd by (rule wont_fix_loop_not_declined)
next
  assume clean: "no_not_planned (world t)"
  let ?T = "store_collaborators (github_repo config) findings"
  show "no_not_planned (world (snd (full_sync ?T config d t)))"
    using store_keeps_no_not_planned clean by (rule full_sync_kept)
  have "no_not_planned (world (snd (sync_sonar_to_github ?T config False t)))"
    using store_keeps_no_not_planned clean by (rule sync_sonar_to_github_kept)
  then show "\<exists>t'. sync_github_to_sonar ?T config d (snd (sync_sonar_to_github ?T config False t))
                     = (Inr [(''marked_wont_fix'', 0)], t')
                   \<and> filter is_wont_fix (calls t')
                       = filter is_wont_fix (calls (snd (sync_sonar_to_github ?T config False t)))"
    by (rule store_reverse_sync_clean)
qed

theorem close_request_keeps_reason_witness:
  "no_not_planned [stale_item]
   \<and> calls (snd (close_issue (store_collaborators ''o/r'' [example_finding]) ''o/r'' 2
                   \<lparr>world = [stale_item], calls = []\<rparr>))
       = [GitHubPatch ''https://api.github.com/repos/o/r/issues/2'' [(''state'', ''closed'')]]
   \<and> map (\<lambda>gi. (number gi, state gi, state_reason gi))
         (world (snd (sync_sonar_to_github (store_collaborators ''o/r'' [example_finding])
                        example_config False \<lparr>world = [stale_item], calls = []\<rparr>)))
       = [(2, ''closed'', None), (3, ''open'', None)]
   \<and> fst (sync_github_to_sonar (store_collaborators ''o/r'' [example_finding]) example_config False
            (snd (sync_sonar_to_github (store_collaborators ''o/r'' [example_finding])
                    example_config False \<lparr>world = [stale_item], calls = []\<rparr>)))
       = Inr [(''marked_wont_fix'', 0)]"
proof -
  let ?T = "store_collaborators ''o/r'' [example_finding]"
  let ?t = "\<lparr>world = [stale_item], calls = []\<rparr> :: GitHubIssue list run"
  have repo: "github_repo example_config = ''o/r''" by (simp add: example_config_def)
  have clean: "no_not_planned (world ?t)"
    by (simp add: no_not_planned_def stale_item_def)
  have u: "issue_url ''o/r'' 2 = ''https://api.github.com/repos/o/r/issues/2''"
    by code_simp
  have w: "map (\<lambda>gi. (number gi, state gi, state_reason gi))
         (world (snd (sync_sonar_to_github ?T example_config False ?t)))
       = [(2, ''closed'', None), (3, ''open'', None)]"
    by code_simp
  from close_request_keeps_reason [of ?T "''o/r''" 2 ?t stale_item False "[]" 0 ?t example_config
      "[example_finding]"] clean w
  show ?thesis by (auto simp: repo u)
qed

text \<open>
  C10, as the claim states it, fails for an open item that already carries the reason
  \<open>not_planned\<close>: forward sync closes it with the state field alone, the tracker keeps its
  reason, and the reverse sync that follows issues the mark-won't-fix request for it.
\<close>

theorem open_not_planned_item_is_marked:
  "state reopened_item = ''open''
   \<and> state_reason reopened_item = Some ''not_planned''
   \<and> sync_sonar_to_github (store_collaborators ''o/r'' []) example_config False
        \<lparr>world = [reopened_item], calls = []\<rparr>
       = (Inr [(''created'', 0), (''skipped'', 0), (''closed'', 1)],
          \<lparr>world = [reopened_item\<lparr>state := ''closed''\<rparr>],
           calls = [SonarGetIssues ''test-project'' [''BUG''],
                    GitHubGetIssuesWithLabel ''o/r'' ''sonarcloud'',
                    GitHubPatch ''https://api.github.com/repos/o/r/issues/2''
                      [(''state'', ''closed'')]]\<rparr>)
   \<and> state_reason (reopened_item\<lparr>state := ''closed''\<rparr>) = Some ''not_planned''
   \<and> sync_github_to_sonar (store_collaborators ''o/r'' []) example_config False
        \<lparr>world = [reopened_item\<lparr>state := ''closed''\<rparr>], calls = []\<rparr>
       = (Inr [(''marked_wont_fix'', 1)],
          \<lparr>world = [reopened_item\<lparr>state := ''closed''\<rparr>],
           calls = [GitHubGetIssuesWithLabel ''o/r'' ''sonarcloud'',
                    SonarResolveWontFix ''sonar-2'']\<rparr>)"
  by code_simp


section \<open>A second forward sync\<close>

lemma lookup_hit_iff:
  "lists_link sv repo u (world s)
     \<longleftrightarrow> (\<exists>gi s1. issue_exists_with_sonar_link sv repo u s = (Inr (Some gi), s1))"
proof -
  obtain r s1 where g: "get_issues_with_label sv repo ''sonarcloud'' s = (r, s1)"
    by (cases "get_issues_with_label sv repo ''sonarcloud'' s")
  then have f: "fst (github_get_issues_with_label sv repo ''sonarcloud'' (world s)) = r"
    using invoke_fst [of "GitHubGetIssuesWithLabel repo ''sonarcloud''"
        "github_get_issues_with_label sv repo ''sonarcloud''" s]
    by (simp add: get_issues_with_label_def)
  show ?thesis
  proof (cases r)
    case (Inl e)
    with g f show ?thesis by (simp add: lists_link_def issue_exists_with_sonar_link_def)
  next
    case (Inr items)
    have "list_ex (\<lambda>gi. sublist u (body gi)) items
            \<longleftrightarrow> find (\<lambda>issue. sublist u (body issue)) items \<noteq> None"
      by (auto simp: find_None_iff list_ex_iff)
    then have "list_ex (\<lambda>gi. sublist u (body gi)) items
            \<longleftrightarrow> (\<exists>gi. find (\<lambda>issue. sublist u (body issue)) items = Some gi)"
      by auto
    with g f Inr show ?thesis
      by (simp add: lists_link_def issue_exists_with_sonar_link_def)
  qed
qed

lemma create_loop_bound:
  "create_loop sv config d fs (cr, sk) s = (Inr (cr', sk'), s') \<Longrightarrow>
   cr' + sk' \<le> cr + sk + length fs"
proof (induction fs arbitrary: cr sk s d)
  case Nil
  then show ?case by simp
next
  case (Cons f fs)
  obtain x s1 where
    look: "issue_exists_with_sonar_link sv (github_repo config) (url f) s = (x, s1)"
    by (cases "issue_exists_with_sonar_link sv (github_repo config) (url f) s")
  obtain y s2 where
    cr: "create_issue sv (github_repo config) (message f) (create_github_issue_body f)
           (''sonarcloud'' # tags f) s1 = (y, s2)"
    by (cases "create_issue sv (github_repo config) (message f) (create_github_issue_body f)
           (''sonarcloud'' # tags f) s1")
  show ?case
  proof (cases x)
    case (Inl e)
    with Cons.prems look show ?thesis by simp
  next
    case (Inr found)
    show ?thesis
    proof (cases found)
      case (Some gi)
      with Cons.prems look Inr
      have "create_loop sv config d fs (cr, sk + 1) s1 = (Inr (cr', sk'), s')" by simp
      from Cons.IH [OF this] show ?thesis by simp
    next
      case None
      with Cons.prems look Inr cr
      have "(\<exists>t. create_loop sv config d fs (cr + 1, sk) t = (Inr (cr', sk'), s'))
            \<or> (\<exists>t. create_loop sv config d fs (cr, sk) t = (Inr (cr', sk'), s'))"
        by (cases y; cases d) auto
      then show ?thesis
      proof
        assume "\<exists>t. create_loop sv config d fs (cr + 1, sk) t = (Inr (cr', sk'), s')"
        then obtain t where "create_loop sv config d fs (cr + 1, sk) t = (Inr (cr', sk'), s')"
          by blast
        from Cons.IH [OF this] show ?thesis by simp
      next
        assume "\<exists>t. create_loop sv config d fs (cr, sk) t = (Inr (cr', sk'), s')"
        then obtain t where "create_loop sv config d fs (cr, sk) t = (Inr (cr', sk'), s')"
          by blast
        from Cons.IH [OF this] show ?thesis by simp
      qed
    qed
  qed
qed

lemma create_loop_links:
  assumes keep: "\<forall>u. kept_by sv (github_repo config) (lists_link sv (github_repo config) u)"
    and stored: "\<forall>t b l w gi w' u.
                   github_create_issue sv (github_repo config) t b (''sonarcloud'' # l) w
                     = (Inr gi, w') \<and> sublist u b
                   \<longrightarrow> lists_link sv (github_repo config) u w'"
  shows "create_loop sv config False fs (cr, sk) s = (Inr (cr', sk'), s') \<Longrightarrow>
         cr' + sk' = cr + sk + length fs \<Longrightarrow>
         \<forall>f\<in>set fs. lists_link sv (github_repo config) (url f) (world s')"
proof (induction fs arbitrary: cr sk s)
  case Nil
  show ?case by simp
next
  case (Cons f fs)
  let ?repo = "github_repo config"
  obtain x s1 where look: "issue_exists_with_sonar_link sv ?repo (url f) s = (x, s1)"
    by (cases "issue_exists_with_sonar_link sv ?repo (url f) s")
  obtain y s2 where
    cr: "create_issue sv ?repo (message f) (create_github_issue_body f)
           (''sonarcloud'' # tags f) s1 = (y, s2)"
    by (cases "create_issue sv ?repo (message f) (create_github_issue_body f)
           (''sonarcloud'' # tags f) s1")
  from keep have k: "kept_by sv ?repo (lists_link sv ?repo (url f))" by blast
  have "\<exists>cr1 sk1 t. create_loop sv config False fs (cr1, sk1) t = (Inr (cr', sk'), s')
          \<and> cr1 + sk1 = cr + sk + 1 \<and> lists_link sv ?repo (url f) (world t)"
  proof (cases x)
    case (Inl e)
    with Cons.prems(1) look show ?thesis by simp
  next
    case (Inr found)
    show ?thesis
    proof (cases found)
      case (Some gi)
      with look Inr have "lists_link sv ?repo (url f) (world s)"
        by (auto simp: lookup_hit_iff)
      from lookup_kept [OF k this, of "url f"] look
      have l1: "lists_link sv ?repo (url f) (world s1)" by simp
      from Cons.prems(1) look Inr Some
      have "create_loop sv config False fs (cr, sk + 1) s1 = (Inr (cr', sk'), s')" by simp
      with l1 show ?thesis by force
    next
      case None
      show ?thesis
      proof (cases y)
        case (Inl e)
        with Cons.prems(1) look Inr None cr
        have "create_loop sv config False fs (cr, sk) s2 = (Inr (cr', sk'), s')" by simp
        from create_loop_bound [OF this] Cons.prems(2) show ?thesis by simp
      next
        case created: (Inr gi)
        with cr have "github_create_issue sv ?repo (message f) (create_github_issue_body f)
                         (''sonarcloud'' # tags f) (world s1) = (Inr gi, world s2)"
          by (auto simp: create_issue_def invoke_def split: prod.splits)
        with stored url_in_built_body [of f]
        have l2: "lists_link sv ?repo (url f) (world s2)" by blast
        from Cons.prems(1) look Inr None cr created
        have "create_loop sv config False fs (cr + 1, sk) s2 = (Inr (cr', sk'), s')" by simp
        with l2 show ?thesis by force
      qed
    qed
  qed
  then obtain cr1 sk1 t where
    rest: "create_loop sv config False fs (cr1, sk1) t = (Inr (cr', sk'), s')"
    and sum: "cr1 + sk1 = cr + sk + 1"
    and lf: "lists_link sv ?repo (url f) (world t)"
    by blast
  from Cons.prems(2) sum have "cr' + sk' = cr1 + sk1 + length fs" by simp
  from Cons.IH [OF rest this]
  have others: "\<forall>g\<in>set fs. lists_link sv ?repo (url g) (world s')" .
  from create_loop_kept [OF k lf, of False fs "(cr1, sk1)"] rest
  have "lists_link sv ?repo (url f) (world s')" by simp
  with others show ?case by simp
qed

lemma create_loop_all_linked:
  assumes keep: "\<forall>u. kept_by sv (github_repo config) (lists_link sv (github_repo config) u)"
  shows "\<forall>f\<in>set fs. lists_link sv (github_repo config) (url f) (world s) \<Longrightarrow>
         \<exists>s'. create_loop sv config d fs (cr, sk) s = (Inr (cr, sk + length fs), s')"
proof (induction fs arbitrary: sk s)
  case Nil
  show ?case by simp
next
  case (Cons f fs)
  let ?repo = "github_repo config"
  from Cons.prems have "lists_link sv ?repo (url f) (world s)" by simp
  then obtain gi s1 where
    look: "issue_exists_with_sonar_link sv ?repo (url f) s = (Inr (Some gi), s1)"
    by (auto simp: lookup_hit_iff)
  have "\<forall>g\<in>set fs. lists_link sv ?repo (url g) (world s1)"
  proof
    fix g
    assume "g \<in> set fs"
    with Cons.prems have l: "lists_link sv ?repo (url g) (world s)" by simp
    from keep have "kept_by sv ?repo (lists_link sv ?repo (url g))" by blast
    from lookup_kept [OF this l, of "url f"] look
    show "lists_link sv ?repo (url g) (world s1)" by simp
  qed
  from Cons.IH [OF this, of "sk + 1"] obtain s' where
    "create_loop sv config d fs (cr, sk + 1) s1 = (Inr (cr, sk + 1 + length fs), s')"
    by blast
  with look show ?case by simp
qed

lemma store_lists_link:
  "lists_link (store_collaborators repo findings) r u w
     = list_ex (\<lambda>gi. sublist u (body gi)) (filter (\<lambda>gi. List.member (labels gi) ''sonarcloud'') w)"
  by (simp add: lists_link_def store_collaborators_def)

lemma patched_same_links:
  "list_ex (\<lambda>gi. sublist u (body gi))
     (filter (\<lambda>gi. l \<in> set (labels gi))
        (map (\<lambda>gi. if c gi then apply_patch [(''state'', ''closed'')] gi else gi) w))
   = list_ex (\<lambda>gi. sublist u (body gi)) (filter (\<lambda>gi. l \<in> set (labels gi)) w)"
  by (induction w) (auto simp: apply_patch_close)

lemma store_keeps_links:
  "kept_by (store_collaborators repo findings) r (lists_link (store_collaborators repo findings) r u)"
  unfolding kept_by_def store_lists_link
  by (simp add: store_collaborators_def Let_def apply_patch_close patched_same_links)

lemma store_stores_body:
  "github_create_issue (store_collaborators repo findings) r t b (''sonarcloud'' # l) w = (Inr gi, w')
   \<and> sublist u b
   \<longrightarrow> lists_link (store_collaborators repo findings) r u w'"
  unfolding store_lists_link
  by (auto simp: store_collaborators_def Let_def)

text \<open>
  C9. Suppose the tracker keeps what it lists (an item body it lists at one time it still
  lists after any call of the engine), lists every issue it created under the marker
  label with the body it was given, and SonarCloud returns the same findings to every
  fetch. If a forward sync in execution mode returns with every finding either skipped
  or created, that is, with no create call having failed, then a forward sync run next, in
  either mode, returns with \<open>created = 0\<close> and every finding counted as skipped.
\<close>

theorem second_forward_sync_creates_nothing:
  assumes keep: "\<forall>u. kept_by sv (github_repo config) (lists_link sv (github_repo config) u)"
    and stored: "\<forall>t b l w gi w' u.
                   github_create_issue sv (github_repo config) t b (''sonarcloud'' # l) w
                     = (Inr gi, w') \<and> sublist u b
                   \<longrightarrow> lists_link sv (github_repo config) u w'"
    and same: "\<forall>w. fst (sonar_get_issues sv (sonar_project_key config) (issue_types config) w)
                     = Inr findings"
    and run1: "sync_sonar_to_github sv config False s0
                 = (Inr [(''created'', c1), (''skipped'', k1), (''closed'', cl1)], s1)"
    and all_ok: "c1 + k1 = length findings"
    and run2: "sync_sonar_to_github sv config d s1 = (Inr r2, s2)"
  shows "\<exists>cl2. r2 = [(''created'', 0), (''skipped'', length findings), (''closed'', cl2)]"
proof -
  let ?repo = "github_repo config"
  have fetched: "\<exists>t'. get_issues sv (sonar_project_key config) (issue_types config) t
                        = (Inr findings, t')" for t
  proof -
    obtain r t' where g: "get_issues sv (sonar_project_key config) (issue_types config) t = (r, t')"
      by (cases "get_issues sv (sonar_project_key config) (issue_types config) t")
    have "fst (get_issues sv (sonar_project_key config) (issue_types config) t) = Inr findings"
      using same by (simp add: get_issues_def invoke_fst)
    with g show ?thesis by simp
  qed
  from fetched [of s0] obtain sa where
    a: "get_issues sv (sonar_project_key config) (issue_types config) s0 = (Inr findings, sa)"
    by blast
  obtain x sb where b: "create_loop sv config False findings (0, 0) sa = (x, sb)"
    by (cases "create_loop sv config False findings (0, 0) sa")
  obtain y sc where c: "get_issues_with_label sv ?repo ''sonarcloud'' sb = (y, sc)"
    by (cases "get_issues_with_label sv ?repo ''sonarcloud'' sb")
  from run1 a b c obtain items where
    x: "x = Inr (c1, k1)" and y: "y = Inr items"
    and e: "snd (close_loop sv config False findings items 0 sc) = s1"
    by (auto simp: sync_sonar_to_github_def split: sum.splits prod.splits)
  from b x all_ok have links_b: "\<forall>f\<in>set findings. lists_link sv ?repo (url f) (world sb)"
    using create_loop_links [OF keep stored, of findings 0 0 sa c1 k1 sb] by simp
  have links_1: "\<forall>f\<in>set findings. lists_link sv ?repo (url f) (world s1)"
  proof
    fix f
    assume "f \<in> set findings"
    with links_b have l: "lists_link sv ?repo (url f) (world sb)" by simp
    from keep have k: "kept_by sv ?repo (lists_link sv ?repo (url f))" by blast
    have "lists_link sv ?repo (url f) (world sc)"
      using k l c invoke_world [of "GitHubGetIssuesWithLabel ?repo ''sonarcloud''"
          "github_get_issues_with_label sv ?repo ''sonarcloud''" sb]
      by (simp add: get_issues_with_label_def kept_by_def)
    from close_loop_kept [OF k this, of False findings items 0] e
    show "lists_link sv ?repo (url f) (world s1)" by simp
  qed
  from fetched [of s1] obtain sd where
    a2: "get_issues sv (sonar_project_key config) (issue_types config) s1 = (Inr findings, sd)"
    by blast
  have links_d: "\<forall>f\<in>set findings. lists_link sv ?repo (url f) (world sd)"
  proof
    fix f
    assume "f \<in> set findings"
    with links_1 have l: "lists_link sv ?repo (url f) (world s1)" by simp
    from keep have k: "kept_by sv ?repo (lists_link sv ?repo (url f))" by blast
    show "lists_link sv ?repo (url f) (world sd)"
      using k l a2 invoke_world [of "SonarGetIssues (sonar_project_key config) (issue_types config)"
          "sonar_get_issues sv (sonar_project_key config) (issue_types config)" s1]
      by (simp add: get_issues_def kept_by_def)
  qed
  from create_loop_all_linked [OF keep links_d, of d 0 0] obtain se where
    b2: "create_loop sv config d findings (0, 0) sd = (Inr (0, length findings), se)"
    by auto
  from run2 a2 b2 show ?thesis
    by (auto simp: sync_sonar_to_github_def split: sum.splits prod.splits)
qed

theorem second_forward_sync_creates_nothing_witness:
  "fst (sync_sonar_to_github (store_collaborators ''o/r'' [example_finding]) example_config False
          \<lparr>world = [], calls = []\<rparr>)
     = Inr [(''created'', 1), (''skipped'', 0), (''closed'', 0)]
   \<and> fst (sync_sonar_to_github (store_collaborators ''o/r'' [example_finding]) example_config False
            (snd (sync_sonar_to_github (store_collaborators ''o/r'' [example_finding])
                    example_config False \<lparr>world = [], calls = []\<rparr>)))
     = Inr [(''created'', 0), (''skipped'', 1), (''closed'', 0)]"
proof -
  let ?T = "store_collaborators ''o/r'' [example_finding]"
  let ?s0 = "\<lparr>world = [], calls = []\<rparr> :: GitHubIssue list run"
  let ?s1 = "snd (sync_sonar_to_github ?T example_config False ?s0)"
  let ?s2 = "snd (sync_sonar_to_github ?T example_config False ?s1)"
  have repo: "github_repo example_config = ''o/r''" by (simp add: example_config_def)
  have keep: "\<forall>u. kept_by ?T (github_repo example_config)
                    (lists_link ?T (github_repo example_config) u)"
    by (simp add: store_keeps_links)
  have stored: "\<forall>t b l w gi w' u.
                   github_create_issue ?T (github_repo example_config) t b (''sonarcloud'' # l) w
                     = (Inr gi, w') \<and> sublist u b
                   \<longrightarrow> lists_link ?T (github_repo example_config) u w'"
    using store_stores_body by blast
  have same: "\<forall>w. fst (sonar_get_issues ?T (sonar_project_key example_config)
                          (issue_types example_config) w) = Inr [example_finding]"
    by (simp add: store_collaborators_def)
  have f1: "fst (sync_sonar_to_github ?T example_config False ?s0)
              = Inr [(''created'', 1), (''skipped'', 0), (''closed'', 0)]"
    by code_simp
  then have run1: "sync_sonar_to_github ?T example_config False ?s0
              = (Inr [(''created'', 1), (''skipped'', 0), (''closed'', 0)], ?s1)"
    by (simp add: prod_eq_iff)
  have ok: "(1::nat) + 0 = length [example_finding]" by simp
  have f2: "fst (sync_sonar_to_github ?T example_config False ?s1)
              = Inr [(''created'', 0), (''skipped'', 1), (''closed'', 0)]"
    by code_simp
  then have run2: "sync_sonar_to_github ?T example_config False ?s1
              = (Inr [(''created'', 0), (''skipped'', 1), (''closed'', 0)], ?s2)"
    by (simp add: prod_eq_iff)
  from second_forward_sync_creates_nothing [OF keep stored same run1 ok run2] f1 f2
  show ?thesis by simp
qed

end
